theory Spec2Isabelle
  imports Complex_Main "HOL-Library.Word"
begin

section \<open>JavaScript values\<close>

text \<open>
  The CLI (\<^verbatim>\<open>bin/lea.mjs\<close>) handles values it receives from the SDK: primitives, and
  references to objects that live in a heap. A heap is a finite list of objects, an
  address is an index into it. Numbers are IEEE doubles in the source; the model keeps
  their value (every finite double is a rational) and the three non-finite ones.
  Symbols are opaque handles. A function is \<open>Map.prototype.get\<close>, the one built-in
  method the CLI calls on a value, or an opaque handle.
\<close>

type_synonym addr = nat

datatype fn = Map_get | Opaque nat

datatype number = Finite rat | NaN | PosInfinity | NegInfinity

datatype prim =
    VUndefined
  | VNull
  | VBoolean bool
  | VNumber number
  | VBigInt int
  | VString string
  | VSymbol nat
  | VFunction fn

datatype val = Prim prim | Ref addr

text \<open>The typed arrays, each with its elements at the width of its kind.\<close>

datatype typed_array =
    Int8Array "8 word list"
  | Uint8Array "8 word list"
  | Uint8ClampedArray "8 word list"
  | Int16Array "16 word list"
  | Uint16Array "16 word list"
  | Int32Array "32 word list"
  | Uint32Array "32 word list"
  | Float32Array "number list"
  | Float64Array "number list"
  | BigInt64Array "64 word list"
  | BigUint64Array "64 word list"

text \<open>
  Objects. A \<open>DataView\<close> carries the bytes of its buffer, its \<open>byteOffset\<close> and its
  \<open>byteLength\<close>. A \<open>Map\<close> is keyed by strings, as the decoded results of the SDK are
  (program id hex). Arrays are dense. Every other object is a \<open>PlainObject\<close> with its
  own enumerable string-keyed properties, in order.
\<close>

datatype obj =
    TypedArray typed_array
  | DataView "8 word list" nat nat
  | MapObject "(string \<times> val) list"
  | ArrayObject "val list"
  | PlainObject "(string \<times> val) list"

type_synonym heap = "obj list"

text \<open>What \<open>serialize\<close> builds: fresh arrays and objects over primitives.\<close>

datatype jsvalue =
    JPrim prim
  | JArray "jsvalue list"
  | JObject "(string \<times> jsvalue) list"

text \<open>A thrown \<open>Error\<close> object: its \<open>name\<close> and its \<open>message\<close>.\<close>

datatype error = JSError (error_name: string) (error_message: string)

definition RangeError :: "string \<Rightarrow> error" where
  "RangeError m = JSError ''RangeError'' m"

definition TypeError :: "string \<Rightarrow> error" where
  "TypeError m = JSError ''TypeError'' m"

definition SyntaxError :: "string \<Rightarrow> error" where
  "SyntaxError m = JSError ''SyntaxError'' m"

definition Error :: "string \<Rightarrow> error" where
  "Error m = JSError ''Error'' m"

text \<open>
  No JavaScript value refers outside the heap. The model stops with this error at an
  address that is not allocated.
\<close>

definition invalid_reference :: error where
  "invalid_reference = JSError ''InvalidReference'' ''address not allocated''"

section \<open>Numbers and big integers as text\<close>

definition digit_char :: "nat \<Rightarrow> char" where
  "digit_char d = ''0123456789'' ! d"

fun digits :: "nat \<Rightarrow> string" where
  "digits n = (if n < 10 then [digit_char n] else digits (n div 10) @ [digit_char (n mod 10)])"

declare digits.simps [simp del]

text \<open>\<open>BigInt.prototype.toString()\<close>: decimal, with a minus sign below zero.\<close>

definition bigint_toString :: "int \<Rightarrow> string" where
  "bigint_toString i = (if i < 0 then CHR ''-'' # digits (nat (- i)) else digits (nat i))"

section \<open>The serializer\<close>

text \<open>The elements of a typed array, as iterating it yields them.\<close>

definition num_of_int :: "int \<Rightarrow> prim" where
  "num_of_int i = VNumber (Finite (of_int i))"

fun elements :: "typed_array \<Rightarrow> prim list" where
  "elements (Int8Array ws) = map (\<lambda>w. num_of_int (sint w)) ws"
| "elements (Uint8Array ws) = map (\<lambda>w. num_of_int (uint w)) ws"
| "elements (Uint8ClampedArray ws) = map (\<lambda>w. num_of_int (uint w)) ws"
| "elements (Int16Array ws) = map (\<lambda>w. num_of_int (sint w)) ws"
| "elements (Uint16Array ws) = map (\<lambda>w. num_of_int (uint w)) ws"
| "elements (Int32Array ws) = map (\<lambda>w. num_of_int (sint w)) ws"
| "elements (Uint32Array ws) = map (\<lambda>w. num_of_int (uint w)) ws"
| "elements (Float32Array ns) = map VNumber ns"
| "elements (Float64Array ns) = map VNumber ns"
| "elements (BigInt64Array ws) = map (\<lambda>w. VBigInt (sint w)) ws"
| "elements (BigUint64Array ws) = map (\<lambda>w. VBigInt (uint w)) ws"

text \<open>\<open>obj[k] = v\<close> on a plain object: overwrite in place, or append.\<close>

fun set_prop :: "(string \<times> 'a) list \<Rightarrow> string \<Rightarrow> 'a \<Rightarrow> (string \<times> 'a) list" where
  "set_prop [] k v = [(k, v)]"
| "set_prop ((k', v') # ps) k v =
     (if k' = k then (k, v) # ps else (k', v') # set_prop ps k v)"

text \<open>
  A computation that may throw and threads a state: \<open>None\<close> is "not finished within
  the fuel", \<open>Some (Inl e)\<close> is "threw \<open>e\<close>", \<open>Some (Inr (x, s))\<close> is "returned \<open>x\<close>".
\<close>

definition map_ok :: "('a \<Rightarrow> 'b) \<Rightarrow> (error + 'a \<times> 's) option \<Rightarrow> (error + 'b \<times> 's) option" where
  "map_ok f r =
     (case r of None \<Rightarrow> None
      | Some (Inl e) \<Rightarrow> Some (Inl e)
      | Some (Inr (x, s)) \<Rightarrow> Some (Inr (f x, s)))"

text \<open>
  \<^verbatim>\<open>
  const serialize = (value) => {
    const seen = new WeakSet();
    const conv = (v) => {
      if (v === null || typeof v !== 'object') {
        if (typeof v === 'bigint') return v.toString();
        return v;
      }
      if (seen.has(v)) return '[Circular]';
      seen.add(v);
      if (ArrayBuffer.isView(v)) {
        if (v instanceof DataView) {
          return Array.from(new Uint8Array(v.buffer, v.byteOffset, v.byteLength));
        }
        return Array.from(v);
      }
      if (v instanceof Map) {
        const obj = {};
        for (const [k, val] of v.entries()) obj[k] = conv(val);
        return obj;
      }
      if (Array.isArray(v)) return v.map(conv);
      const out = {};
      for (const [k, val] of Object.entries(v)) out[k] = conv(val);
      return out;
    };
    return conv(value);
  };
  \<close>
  \<open>conv\<close> threads the set \<open>seen\<close>. The fuel bounds the depth of the descent into
  objects: one unit for every object that is opened.
\<close>

fun conv :: "nat \<Rightarrow> heap \<Rightarrow> addr set \<Rightarrow> val \<Rightarrow> (error + jsvalue \<times> addr set) option"
and conv_list :: "nat \<Rightarrow> heap \<Rightarrow> addr set \<Rightarrow> val list \<Rightarrow> (error + jsvalue list \<times> addr set) option"
and conv_entries :: "nat \<Rightarrow> heap \<Rightarrow> addr set \<Rightarrow> (string \<times> val) list \<Rightarrow> (string \<times> jsvalue) list
    \<Rightarrow> (error + (string \<times> jsvalue) list \<times> addr set) option"
where
  "conv n h seen (Prim p) =
     Some (Inr (JPrim (case p of VBigInt i \<Rightarrow> VString (bigint_toString i) | _ \<Rightarrow> p), seen))"
| "conv 0 h seen (Ref a) =
     (if a \<in> seen then Some (Inr (JPrim (VString ''[Circular]''), seen))
      else if length h \<le> a then Some (Inl invalid_reference)
      else None)"
| "conv (Suc m) h seen (Ref a) =
     (if a \<in> seen then Some (Inr (JPrim (VString ''[Circular]''), seen))
      else if length h \<le> a then Some (Inl invalid_reference)
      else
        (case h ! a of
           TypedArray t \<Rightarrow> Some (Inr (JArray (map JPrim (elements t)), insert a seen))
         | DataView buf off len \<Rightarrow>
             (if off + len \<le> length buf
              then Some (Inr (JArray (map (\<lambda>w. JPrim (num_of_int (uint w))) (take len (drop off buf))),
                     insert a seen))
              else Some (Inl (RangeError ''Invalid typed array length'')))
         | MapObject es \<Rightarrow> map_ok JObject (conv_entries m h (insert a seen) es [])
         | ArrayObject vs \<Rightarrow> map_ok JArray (conv_list m h (insert a seen) vs)
         | PlainObject es \<Rightarrow> map_ok JObject (conv_entries m h (insert a seen) es [])))"
| "conv_list n h seen [] = Some (Inr ([], seen))"
| "conv_list n h seen (v # vs) =
     (case conv n h seen v of
        None \<Rightarrow> None
      | Some (Inl e) \<Rightarrow> Some (Inl e)
      | Some (Inr (x, s)) \<Rightarrow> map_ok ((#) x) (conv_list n h s vs))"
| "conv_entries n h seen [] acc = Some (Inr (acc, seen))"
| "conv_entries n h seen ((k, v) # es) acc =
     (case conv n h seen v of
        None \<Rightarrow> None
      | Some (Inl e) \<Rightarrow> Some (Inl e)
      | Some (Inr (x, s)) \<Rightarrow> conv_entries n h s es (set_prop acc k x))"

text \<open>
  \<open>serialize\<close> starts from the empty set. A descent opens each object at most once,
  so the size of the heap is fuel enough.
\<close>

definition serialize :: "heap \<Rightarrow> val \<Rightarrow> (error + jsvalue) option" where
  "serialize h v =
     (case conv (length h) h {} v of
        None \<Rightarrow> None
      | Some (Inl e) \<Rightarrow> Some (Inl e)
      | Some (Inr (x, s)) \<Rightarrow> Some (Inr x))"

section \<open>Built-ins of the runtime\<close>

text \<open>
  What the CLI takes from the JavaScript runtime and from the machine, and cannot be read
  off a value: the text of an object or function (\<open>ToString\<close> runs its own
  \<open>toString\<close>), the text of a number that is not a plain integer, a call of an opaque
  function, \<open>JSON.parse\<close>, the paths that cannot be written, \<open>path.resolve\<close> and
  \<open>path.dirname\<close>, \<open>process.platform\<close> and \<open>process.execPath\<close>, the module
  resolution of \<open>createRequire\<close>, and what a spawned child does. They are parameters
  of the model.

  A child process reports through events: \<open>'error'\<close> with an error, and \<open>'close'\<close>
  with an exit code or \<open>null\<close> and a signal name or \<open>null\<close>.
\<close>

datatype child_event = ErrorEvent error | CloseEvent "int option" "string option"

record runtime =
  object_toString :: "heap \<Rightarrow> val \<Rightarrow> error + string"
  number_toString :: "rat \<Rightarrow> string"
  call_function :: "nat \<Rightarrow> heap \<Rightarrow> val \<Rightarrow> val list \<Rightarrow> (error + val) \<times> heap"
  JSON_parse :: "heap \<Rightarrow> string \<Rightarrow> (error + val) \<times> heap"
  fs_write_error :: "string \<Rightarrow> error option"
  path_resolve :: "string \<Rightarrow> string"
  path_resolve_from :: "string \<Rightarrow> string \<Rightarrow> string"
  path_dirname :: "string \<Rightarrow> string"
  platform :: string
  execPath :: string
  require_resolve :: "string \<Rightarrow> error + string"
  require :: "heap \<Rightarrow> string \<Rightarrow> (error + val) \<times> heap"
  spawn_child :: "string \<Rightarrow> string list \<Rightarrow> bool \<Rightarrow> child_event list"

definition is_integer :: "rat \<Rightarrow> bool" where
  "is_integer q = (of_int \<lfloor>q\<rfloor> = q)"

text \<open>\<open>Number::toString\<close>; integers below \<open>10^21\<close> print in decimal.\<close>

definition Number_toString :: "runtime \<Rightarrow> number \<Rightarrow> string" where
  "Number_toString rt n =
     (case n of
        NaN \<Rightarrow> ''NaN''
      | PosInfinity \<Rightarrow> ''Infinity''
      | NegInfinity \<Rightarrow> ''-Infinity''
      | Finite q \<Rightarrow>
          if is_integer q \<and> \<bar>q\<bar> < 10 ^ 21 then bigint_toString \<lfloor>q\<rfloor> else number_toString rt q)"

text \<open>\<open>ToString\<close>, as a template literal applies it: a symbol throws.\<close>

definition ToString :: "runtime \<Rightarrow> heap \<Rightarrow> val \<Rightarrow> error + string" where
  "ToString rt h v =
     (case v of
        Prim VUndefined \<Rightarrow> Inr ''undefined''
      | Prim VNull \<Rightarrow> Inr ''null''
      | Prim (VBoolean b) \<Rightarrow> Inr (if b then ''true'' else ''false'')
      | Prim (VNumber n) \<Rightarrow> Inr (Number_toString rt n)
      | Prim (VBigInt i) \<Rightarrow> Inr (bigint_toString i)
      | Prim (VString s) \<Rightarrow> Inr s
      | Prim (VSymbol n) \<Rightarrow> Inl (TypeError ''Cannot convert a Symbol value to a string'')
      | Prim (VFunction f) \<Rightarrow> object_toString rt h v
      | Ref a \<Rightarrow> object_toString rt h v)"

text \<open>Truthiness (\<open>ToBoolean\<close>).\<close>

definition truthy :: "val \<Rightarrow> bool" where
  "truthy v =
     (case v of
        Prim VUndefined \<Rightarrow> False
      | Prim VNull \<Rightarrow> False
      | Prim (VBoolean b) \<Rightarrow> b
      | Prim (VNumber n) \<Rightarrow> n \<noteq> Finite 0 \<and> n \<noteq> NaN
      | Prim (VBigInt i) \<Rightarrow> i \<noteq> 0
      | Prim (VString s) \<Rightarrow> s \<noteq> []
      | _ \<Rightarrow> True)"

subsection \<open>\<open>BigInt(...)\<close>\<close>

text \<open>
  \<open>StringToBigInt\<close>: white space is trimmed; the empty text is \<open>0n\<close>; a decimal
  literal may carry a sign; \<open>0x\<close>, \<open>0o\<close> and \<open>0b\<close> literals may not. Strings are
  modelled over 8-bit characters, so the white space is the ASCII one.
\<close>

definition is_whitespace :: "char \<Rightarrow> bool" where
  "is_whitespace c = (c \<in> set [CHR 0x09, CHR 0x0A, CHR 0x0B, CHR 0x0C, CHR 0x0D, CHR 0x20])"

definition trim :: "string \<Rightarrow> string" where
  "trim s = rev (dropWhile is_whitespace (rev (dropWhile is_whitespace s)))"

definition digit_value :: "char \<Rightarrow> nat option" where
  "digit_value c = map_of
     [(CHR ''0'', 0), (CHR ''1'', 1), (CHR ''2'', 2), (CHR ''3'', 3), (CHR ''4'', 4),
      (CHR ''5'', 5), (CHR ''6'', 6), (CHR ''7'', 7), (CHR ''8'', 8), (CHR ''9'', 9),
      (CHR ''a'', 10), (CHR ''b'', 11), (CHR ''c'', 12), (CHR ''d'', 13), (CHR ''e'', 14),
      (CHR ''f'', 15), (CHR ''A'', 10), (CHR ''B'', 11), (CHR ''C'', 12), (CHR ''D'', 13),
      (CHR ''E'', 14), (CHR ''F'', 15)] c"

fun parse_digits :: "nat \<Rightarrow> nat \<Rightarrow> string \<Rightarrow> nat option" where
  "parse_digits r acc [] = Some acc"
| "parse_digits r acc (c # cs) =
     (case digit_value c of
        None \<Rightarrow> None
      | Some d \<Rightarrow> if d < r then parse_digits r (acc * r + d) cs else None)"

definition parse_nat :: "nat \<Rightarrow> string \<Rightarrow> nat option" where
  "parse_nat r s = (if s = [] then None else parse_digits r 0 s)"

definition parse_literal :: "string \<Rightarrow> int option" where
  "parse_literal t =
     (if take 2 t = ''0x'' \<or> take 2 t = ''0X'' then map_option int (parse_nat 16 (drop 2 t))
      else if take 2 t = ''0o'' \<or> take 2 t = ''0O'' then map_option int (parse_nat 8 (drop 2 t))
      else if take 2 t = ''0b'' \<or> take 2 t = ''0B'' then map_option int (parse_nat 2 (drop 2 t))
      else if take 1 t = ''+'' then map_option int (parse_nat 10 (drop 1 t))
      else if take 1 t = ''-'' then map_option (\<lambda>n. - int n) (parse_nat 10 (drop 1 t))
      else map_option int (parse_nat 10 t))"

definition StringToBigInt :: "string \<Rightarrow> int option" where
  "StringToBigInt s = (let t = trim s in if t = [] then Some 0 else parse_literal t)"

text \<open>\<open>BigInt(x)\<close> for the two types \<open>toBigInt\<close> passes to it.\<close>

definition BigInt_of_string :: "string \<Rightarrow> error + int" where
  "BigInt_of_string s =
     (case StringToBigInt s of
        None \<Rightarrow> Inl (SyntaxError (''Cannot convert '' @ s @ '' to a BigInt''))
      | Some i \<Rightarrow> Inr i)"

definition BigInt_of_number :: "runtime \<Rightarrow> number \<Rightarrow> error + int" where
  "BigInt_of_number rt n =
     (case n of
        Finite q \<Rightarrow>
          if is_integer q then Inr \<lfloor>q\<rfloor>
          else Inl (RangeError (''The number '' @ Number_toString rt n
                 @ '' cannot be converted to a BigInt because it is not an integer''))
      | _ \<Rightarrow> Inl (RangeError (''The number '' @ Number_toString rt n
                 @ '' cannot be converted to a BigInt because it is not an integer'')))"

section \<open>Utilities of the CLI\<close>

text \<open>
  \<^verbatim>\<open>
  const toBigInt = (x) => {
    if (typeof x === 'bigint') return x;
    if (typeof x === 'number') return BigInt(x);
    if (typeof x === 'string') return BigInt(x.endsWith('n') ? x.slice(0, -1) : x);
    throw new Error(`Invalid amount: ${x}`);
  };
  \<close>
\<close>

definition toBigInt :: "runtime \<Rightarrow> heap \<Rightarrow> val \<Rightarrow> error + int" where
  "toBigInt rt h x =
     (case x of
        Prim (VBigInt i) \<Rightarrow> Inr i
      | Prim (VNumber n) \<Rightarrow> BigInt_of_number rt n
      | Prim (VString s) \<Rightarrow>
          BigInt_of_string (if s \<noteq> [] \<and> last s = CHR ''n'' then butlast s else s)
      | _ \<Rightarrow>
          (case ToString rt h x of
             Inl e \<Rightarrow> Inl e
           | Inr s \<Rightarrow> Inl (Error (''Invalid amount: '' @ s))))"

text \<open>
  The test of line 128, \<^verbatim>\<open>(n) => Number.isInteger(n) && n >= 0 && n <= 255\<close>.
\<close>

definition is_byte_number :: "val \<Rightarrow> bool" where
  "is_byte_number v =
     (case v of
        Prim (VNumber (Finite q)) \<Rightarrow> is_integer q \<and> 0 \<le> q \<and> q \<le> 255
      | _ \<Rightarrow> False)"

section \<open>The process and its effects\<close>

text \<open>
  The SDK (\<^verbatim>\<open>@getlea/web3\<close>) is an opaque collaborator: \<open>Connection\<close>, the
  \<open>sendTransaction\<close> method of a connection, and the builders of \<open>SystemProgram\<close>
  by name. A call reads and changes the heap, and returns a value or throws.
\<close>

record sdk =
  Connection :: "heap \<Rightarrow> val \<Rightarrow> (error + val) \<times> heap"
  sendTransaction :: "heap \<Rightarrow> val \<Rightarrow> val \<Rightarrow> (error + val) \<times> heap"
  SystemProgram :: "string \<Rightarrow> heap \<Rightarrow> val list \<Rightarrow> (error + val) \<times> heap"

text \<open>The calls that leave the process, in the order they are made.\<close>

datatype event =
    SdkCall string "val list"
  | BuildFnCall "val list"
  | FunctionCall nat val "val list"
  | RequireResolve string
  | Require string
  | Spawn string "string list" bool

record world =
  heap :: heap
  stdout :: "string list"
  stderr :: "string list"
  exitCode :: "int option"
  files :: "string \<Rightarrow> string option"
  trace :: "event list"

text \<open>
  An action runs in a world: \<open>None\<close> is "never returns", \<open>Some (Inl e, w)\<close> is
  "threw \<open>e\<close>", \<open>Some (Inr x, w)\<close> is "returned \<open>x\<close>". \<open>and_then\<close> is sequencing
  (\<open>await\<close> included), \<open>try_catch\<close> is \<^verbatim>\<open>try { ... } catch (e) { ... }\<close>.
\<close>

type_synonym 'a action = "world \<Rightarrow> ((error + 'a) \<times> world) option"

definition ret :: "'a \<Rightarrow> 'a action" where
  "ret x w = Some (Inr x, w)"

definition throw :: "error \<Rightarrow> 'a action" where
  "throw e w = Some (Inl e, w)"

definition and_then :: "'a action \<Rightarrow> ('a \<Rightarrow> 'b action) \<Rightarrow> 'b action" where
  "and_then m f w =
     (case m w of
        None \<Rightarrow> None
      | Some (Inl e, w') \<Rightarrow> Some (Inl e, w')
      | Some (Inr x, w') \<Rightarrow> f x w')"

definition try_catch :: "'a action \<Rightarrow> (error \<Rightarrow> 'a action) \<Rightarrow> 'a action" where
  "try_catch m handler w =
     (case m w of
        None \<Rightarrow> None
      | Some (Inl e, w') \<Rightarrow> handler e w'
      | Some (Inr x, w') \<Rightarrow> Some (Inr x, w'))"

text \<open>Reading the heap, with a result that may be an error.\<close>

definition read :: "(heap \<Rightarrow> error + 'a) \<Rightarrow> 'a action" where
  "read f w = Some (f (heap w), w)"

definition external :: "event \<Rightarrow> (heap \<Rightarrow> (error + 'a) \<times> heap) \<Rightarrow> 'a action" where
  "external ev f w =
     (case f (heap w) of (r, h') \<Rightarrow> Some (r, w\<lparr>heap := h', trace := trace w @ [ev]\<rparr>))"

definition alloc :: "obj \<Rightarrow> val action" where
  "alloc ob w = Some (Inr (Ref (length (heap w))), w\<lparr>heap := heap w @ [ob]\<rparr>)"

definition write_stdout :: "string \<Rightarrow> unit action" where
  "write_stdout s w = Some (Inr (), w\<lparr>stdout := stdout w @ [s]\<rparr>)"

definition write_stderr :: "string \<Rightarrow> unit action" where
  "write_stderr s w = Some (Inr (), w\<lparr>stderr := stderr w @ [s]\<rparr>)"

definition set_exitCode :: "int \<Rightarrow> unit action" where
  "set_exitCode c w = Some (Inr (), w\<lparr>exitCode := Some c\<rparr>)"

subsection \<open>Property access\<close>

text \<open>
  \<open>v.k\<close> for the property names the CLI reads: an own property of a plain object, or
  the \<open>get\<close> method of a \<open>Map\<close>; none of the names exists on another built-in.
  \<open>v?.k\<close> is \<open>undefined\<close> on \<open>null\<close> and \<open>undefined\<close>, where \<open>v.k\<close> throws.
\<close>

definition get_prop :: "heap \<Rightarrow> val \<Rightarrow> string \<Rightarrow> error + val" where
  "get_prop h v k =
     (case v of
        Prim VUndefined \<Rightarrow> Inl (TypeError (''Cannot read properties of undefined (reading '' @ k @ '')''))
      | Prim VNull \<Rightarrow> Inl (TypeError (''Cannot read properties of null (reading '' @ k @ '')''))
      | Prim p \<Rightarrow> Inr (Prim VUndefined)
      | Ref a \<Rightarrow>
          if length h \<le> a then Inl invalid_reference
          else
            (case h ! a of
               PlainObject ps \<Rightarrow> Inr (case map_of ps k of None \<Rightarrow> Prim VUndefined | Some x \<Rightarrow> x)
             | MapObject es \<Rightarrow> Inr (if k = ''get'' then Prim (VFunction Map_get) else Prim VUndefined)
             | _ \<Rightarrow> Inr (Prim VUndefined)))"

definition opt_get :: "heap \<Rightarrow> val \<Rightarrow> string \<Rightarrow> error + val" where
  "opt_get h v k =
     (case v of
        Prim VUndefined \<Rightarrow> Inr (Prim VUndefined)
      | Prim VNull \<Rightarrow> Inr (Prim VUndefined)
      | _ \<Rightarrow> get_prop h v k)"

text \<open>
  A call \<open>f.call(this, ...args)\<close>. \<open>Map.prototype.get\<close> looks its first argument up;
  an opaque function is run by the runtime.
\<close>

definition call :: "runtime \<Rightarrow> fn \<Rightarrow> val \<Rightarrow> val list \<Rightarrow> val action" where
  "call rt f this args =
     (case f of
        Map_get \<Rightarrow>
          read (\<lambda>h.
            case this of
              Ref a \<Rightarrow>
                if length h \<le> a then Inl invalid_reference
                else
                  (case h ! a of
                     MapObject es \<Rightarrow>
                       (case args of
                          Prim (VString k) # _ \<Rightarrow>
                            Inr (case map_of es k of None \<Rightarrow> Prim VUndefined | Some x \<Rightarrow> x)
                        | _ \<Rightarrow> Inr (Prim VUndefined))
                   | _ \<Rightarrow> Inl (TypeError ''Method Map.prototype.get called on incompatible receiver''))
            | _ \<Rightarrow> Inl (TypeError ''Method Map.prototype.get called on incompatible receiver''))
      | Opaque n \<Rightarrow> external (FunctionCall n this args) (\<lambda>h. call_function rt n h this args))"

section \<open>The prefetch of the previous transaction hash\<close>

definition BASE_POD_HEX :: string where
  "BASE_POD_HEX = ''1111111111111111111111111111111111111111111111111111111111111111''"

text \<open>\<^verbatim>\<open>typeof x === 'number' && x !== 0\<close>\<close>

definition is_nonzero_number :: "val \<Rightarrow> bool" where
  "is_nonzero_number v = (case v of Prim (VNumber n) \<Rightarrow> n \<noteq> Finite 0 | _ \<Rightarrow> False)"

text \<open>
  An element of \<open>new Uint8Array(array)\<close>. It is only taken of numbers that pass
  \<open>is_byte_number\<close>, which are their own byte.
\<close>

definition to_uint8 :: "val \<Rightarrow> 8 word" where
  "to_uint8 v = (case v of Prim (VNumber (Finite q)) \<Rightarrow> word_of_int \<lfloor>q\<rfloor> | _ \<Rightarrow> 0)"

text \<open>
  Lines 127 to 133, from the candidate \<open>last\<close> (here \<open>lastTxHash\<close>) to the returned value:
  \<^verbatim>\<open>
      if (last instanceof Uint8Array && last.length === 32) return last;
      if (Array.isArray(last) && last.every((n) => Number.isInteger(n) && n >= 0 && n <= 255)) {
        const bytes = new Uint8Array(last);
        if (bytes.length === 32) return bytes;
      }
    ...
    return undefined;
  \<close>
\<close>

definition accept_last :: "val \<Rightarrow> val action" where
  "accept_last lastTxHash w =
     (case lastTxHash of
        Ref a \<Rightarrow>
          if length (heap w) \<le> a then throw invalid_reference w
          else
            (case heap w ! a of
               TypedArray (Uint8Array ws) \<Rightarrow>
                 ret (if length ws = 32 then lastTxHash else Prim VUndefined) w
             | ArrayObject vs \<Rightarrow>
                 if list_all is_byte_number vs
                 then and_then (alloc (TypedArray (Uint8Array (map to_uint8 vs))))
                        (\<lambda>bytes. ret (if length vs = 32 then bytes else Prim VUndefined)) w
                 else ret (Prim VUndefined) w
             | _ \<Rightarrow> ret (Prim VUndefined) w)
      | _ \<Rightarrow> ret (Prim VUndefined) w)"

text \<open>
  \<^verbatim>\<open>
  async function fetchPrevTxHashFromNetwork(connection, address) {
    try {
      const tx = await SystemProgram.getLastTxHash(address);
      const res = await connection.sendTransaction(tx);
      const exec = res?.executionStatus;
      const abort = res?.abortCode;
      if (!res?.ok || (typeof exec === 'number' && exec !== 0)
          || (typeof abort === 'number' && abort !== 0)) {
        return undefined;
      }
      const decoded = res.decoded;
      if (decoded && typeof decoded.get === 'function') {
        const baseEntry = decoded.get(BASE_POD_HEX);
        const last = baseEntry?.lastTxHash;
        ... (accept_last)
      }
      return undefined;
    } catch (_) {
      return undefined;
    }
  }
  \<close>
\<close>

definition fetch_body :: "sdk \<Rightarrow> runtime \<Rightarrow> val \<Rightarrow> val \<Rightarrow> val action" where
  "fetch_body sdk rt connection address =
     and_then (external (SdkCall ''getLastTxHash'' [address])
                 (\<lambda>h. SystemProgram sdk ''getLastTxHash'' h [address])) (\<lambda>tx.
     and_then (external (SdkCall ''sendTransaction'' [connection, tx])
                 (\<lambda>h. sendTransaction sdk h connection tx)) (\<lambda>res.
     and_then (read (\<lambda>h. opt_get h res ''executionStatus'')) (\<lambda>exec.
     and_then (read (\<lambda>h. opt_get h res ''abortCode'')) (\<lambda>abort.
     and_then (read (\<lambda>h. opt_get h res ''ok'')) (\<lambda>ok.
     if \<not> truthy ok \<or> is_nonzero_number exec \<or> is_nonzero_number abort
     then ret (Prim VUndefined)
     else
       and_then (read (\<lambda>h. get_prop h res ''decoded'')) (\<lambda>decoded.
       if truthy decoded
       then
         and_then (read (\<lambda>h. get_prop h decoded ''get'')) (\<lambda>getter.
         case getter of
           Prim (VFunction f) \<Rightarrow>
             and_then (call rt f decoded [Prim (VString BASE_POD_HEX)]) (\<lambda>baseEntry.
             and_then (read (\<lambda>h. opt_get h baseEntry ''lastTxHash'')) accept_last)
         | _ \<Rightarrow> ret (Prim VUndefined))
       else ret (Prim VUndefined)))))))"

definition fetchPrevTxHashFromNetwork :: "sdk \<Rightarrow> runtime \<Rightarrow> val \<Rightarrow> val \<Rightarrow> val action" where
  "fetchPrevTxHashFromNetwork sdk rt connection address =
     try_catch (fetch_body sdk rt connection address) (\<lambda>_. ret (Prim VUndefined))"

text \<open>
  \<^verbatim>\<open>
  async function buildWithPrevHash(connection, buildFn, args, signerAddress) {
    const prevTxHash = await fetchPrevTxHashFromNetwork(connection, signerAddress);
    return await buildFn(...args, prevTxHash ? { prevTxHash } : {});
  }
  \<close>
  The options object is a fresh object on the heap.
\<close>

definition buildWithPrevHash ::
  "sdk \<Rightarrow> runtime \<Rightarrow> val \<Rightarrow> (heap \<Rightarrow> val list \<Rightarrow> (error + val) \<times> heap) \<Rightarrow> val list \<Rightarrow> val \<Rightarrow> val action"
where
  "buildWithPrevHash sdk rt connection buildFn args signerAddress =
     and_then (fetchPrevTxHashFromNetwork sdk rt connection signerAddress) (\<lambda>prevTxHash.
     and_then (alloc (PlainObject (if truthy prevTxHash then [(''prevTxHash'', prevTxHash)] else []))) (\<lambda>options.
     external (BuildFnCall (args @ [options])) (\<lambda>h. buildFn h (args @ [options]))))"

section \<open>The reporter\<close>

subsection \<open>\<open>JSON.stringify\<close> on what \<open>serialize\<close> builds\<close>

definition hex_char :: "nat \<Rightarrow> char" where
  "hex_char d = ''0123456789abcdef'' ! d"

definition quote_char :: "char \<Rightarrow> string" where
  "quote_char c =
     (if c = CHR 0x22 then [CHR 0x5C, CHR 0x22]
      else if c = CHR 0x5C then [CHR 0x5C, CHR 0x5C]
      else if c = CHR 0x08 then [CHR 0x5C, CHR ''b'']
      else if c = CHR 0x0C then [CHR 0x5C, CHR ''f'']
      else if c = CHR 0x0A then [CHR 0x5C, CHR ''n'']
      else if c = CHR 0x0D then [CHR 0x5C, CHR ''r'']
      else if c = CHR 0x09 then [CHR 0x5C, CHR ''t'']
      else if (of_char c :: nat) < 32
        then [CHR 0x5C, CHR ''u'', CHR ''0'', CHR ''0'',
              hex_char (of_char c div 16), hex_char (of_char c mod 16)]
      else [c])"

definition QuoteJSONString :: "string \<Rightarrow> string" where
  "QuoteJSONString s = CHR 0x22 # concat (map quote_char s) @ [CHR 0x22]"

fun join :: "'a list \<Rightarrow> 'a list list \<Rightarrow> 'a list" where
  "join sep [] = []"
| "join sep [x] = x"
| "join sep (x # y # ys) = x @ sep @ join sep (y # ys)"

text \<open>
  The result is \<open>None\<close> where \<open>JSON.stringify\<close> returns \<open>undefined\<close>. A big integer
  throws. In an array \<open>undefined\<close>, a symbol and a function print as \<open>null\<close>; in an
  object their member is left out. Members print in the order of the list.
\<close>

fun JSON_stringify :: "runtime \<Rightarrow> jsvalue \<Rightarrow> error + string option"
and stringify_elements :: "runtime \<Rightarrow> jsvalue list \<Rightarrow> error + string list"
and stringify_members :: "runtime \<Rightarrow> (string \<times> jsvalue) list \<Rightarrow> error + string list"
where
  "JSON_stringify rt (JPrim p) =
     (case p of
        VUndefined \<Rightarrow> Inr None
      | VNull \<Rightarrow> Inr (Some ''null'')
      | VBoolean b \<Rightarrow> Inr (Some (if b then ''true'' else ''false''))
      | VNumber n \<Rightarrow> Inr (Some (case n of Finite q \<Rightarrow> Number_toString rt n | _ \<Rightarrow> ''null''))
      | VBigInt i \<Rightarrow> Inl (TypeError ''Do not know how to serialize a BigInt'')
      | VString s \<Rightarrow> Inr (Some (QuoteJSONString s))
      | VSymbol n \<Rightarrow> Inr None
      | VFunction f \<Rightarrow> Inr None)"
| "JSON_stringify rt (JArray xs) =
     (case stringify_elements rt xs of
        Inl e \<Rightarrow> Inl e
      | Inr ss \<Rightarrow> Inr (Some (''['' @ join '','' ss @ '']'')))"
| "JSON_stringify rt (JObject ps) =
     (case stringify_members rt ps of
        Inl e \<Rightarrow> Inl e
      | Inr ss \<Rightarrow> Inr (Some (''{'' @ join '','' ss @ ''}'')))"
| "stringify_elements rt [] = Inr []"
| "stringify_elements rt (x # xs) =
     (case JSON_stringify rt x of
        Inl e \<Rightarrow> Inl e
      | Inr s \<Rightarrow>
          (case stringify_elements rt xs of
             Inl e \<Rightarrow> Inl e
           | Inr ss \<Rightarrow> Inr ((case s of None \<Rightarrow> ''null'' | Some t \<Rightarrow> t) # ss)))"
| "stringify_members rt [] = Inr []"
| "stringify_members rt ((k, x) # ps) =
     (case JSON_stringify rt x of
        Inl e \<Rightarrow> Inl e
      | Inr s \<Rightarrow>
          (case stringify_members rt ps of
             Inl e \<Rightarrow> Inl e
           | Inr ss \<Rightarrow>
               Inr ((case s of None \<Rightarrow> [] | Some t \<Rightarrow> [QuoteJSONString k @ '':'' @ t]) @ ss)))"

subsection \<open>Files and streams\<close>

definition newline :: string where
  "newline = [CHR 0x0A]"

definition lift :: "error + 'a \<Rightarrow> 'a action" where
  "lift r w = Some (r, w)"

definition writeFile :: "runtime \<Rightarrow> string \<Rightarrow> string \<Rightarrow> unit action" where
  "writeFile rt path data w =
     (case fs_write_error rt path of
        Some e \<Rightarrow> Some (Inl e, w)
      | None \<Rightarrow> Some (Inr (), w\<lparr>files := (files w)(path \<mapsto> data)\<rparr>))"

definition readFile :: "string \<Rightarrow> string action" where
  "readFile path w =
     (case files w path of
        None \<Rightarrow> Some (Inl (Error (''ENOENT: no such file or directory, open '' @ path)), w)
      | Some s \<Rightarrow> Some (Inr s, w))"

text \<open>\<open>jsonStr + '\n'\<close>, where \<open>jsonStr\<close> may be \<open>undefined\<close>.\<close>

definition line_of :: "string option \<Rightarrow> string" where
  "line_of jsonStr = (case jsonStr of None \<Rightarrow> ''undefined'' | Some s \<Rightarrow> s) @ newline"


text \<open>
  The two lines that end each of the three reports:
  \<^verbatim>\<open>
  if (outfile) await fs.writeFile(path.resolve(outfile), jsonStr + '\n', 'utf8');
  process.stdout.write(jsonStr + '\n');
  \<close>
\<close>

definition emit :: "runtime \<Rightarrow> string option \<Rightarrow> string option \<Rightarrow> unit action" where
  "emit rt outfile jsonStr =
     and_then (case outfile of
                 Some path \<Rightarrow>
                   if path \<noteq> [] then writeFile rt (path_resolve rt path) (line_of jsonStr)
                   else ret ()
               | None \<Rightarrow> ret ())
       (\<lambda>_. write_stdout (line_of jsonStr))"

text \<open>\<open>String(e?.message || e)\<close> for a thrown \<open>Error\<close>.\<close>

definition error_text :: "error \<Rightarrow> string" where
  "error_text e = (if error_message e \<noteq> [] then error_message e else error_name e)"

subsection \<open>\<open>sendAndReport\<close>\<close>




definition serialize_at :: "val \<Rightarrow> jsvalue action" where
  "serialize_at v w =
     (case serialize (heap w) v of
        None \<Rightarrow> None
      | Some (Inl e) \<Rightarrow> Some (Inl e, w)
      | Some (Inr x) \<Rightarrow> Some (Inr x, w))"


definition send_catch :: "runtime \<Rightarrow> string option \<Rightarrow> bool \<Rightarrow> error \<Rightarrow> unit action" where
  "send_catch rt outfile quiet e =
     and_then (if \<not> quiet then write_stderr (''[lea] error: '' @ error_text e @ newline) else ret ()) (\<lambda>_.
     and_then (lift (JSON_stringify rt (JObject [(''error'', JPrim (VString (error_text e)))]))) (\<lambda>jsonStr.
     and_then (emit rt outfile jsonStr) (\<lambda>_.
     set_exitCode 1)))"


section \<open>The keygen proxy\<close>

text \<open>
  \<^verbatim>\<open>
  function spawnAndWait(cmd, args, options = {}) {
    return new Promise((resolve, reject) => {
      const child = spawn(cmd, args, { stdio: 'inherit', windowsHide: true, ...options });
      child.on('error', reject);
      child.on('close', (code, signal) => {
        if (typeof code === 'number') {
          if (code !== 0) process.exitCode = code;
          resolve();
        } else {
          reject(new Error(`Process terminated with signal ${signal || 'UNKNOWN'}`));
        }
      });
    });
  }
  \<close>
  The first event settles the promise. The handlers still run on the events that
  follow (\<open>after_settled\<close>), where \<open>resolve\<close> and \<open>reject\<close> do nothing more. A child
  that never reports leaves the promise pending.
\<close>

definition on_close_code :: "int \<Rightarrow> world \<Rightarrow> world" where
  "on_close_code code w = (if code \<noteq> 0 then w\<lparr>exitCode := Some code\<rparr> else w)"


fun after_settled :: "child_event list \<Rightarrow> world \<Rightarrow> world" where
  "after_settled [] w = w"
| "after_settled (ErrorEvent e # evs) w = after_settled evs w"
| "after_settled (CloseEvent (Some code) signal # evs) w = after_settled evs (on_close_code code w)"
| "after_settled (CloseEvent None signal # evs) w = after_settled evs w"















section \<open>Arguments and dispatch\<close>









subsection \<open>Keyfiles and addresses\<close>








subsection \<open>\<open>main\<close>\<close>







section \<open>Predicates and examples used in the statements\<close>

subsection \<open>What an action does and leaves alone\<close>

text \<open>
  An action is \<open>total\<close> when it returns or throws in every world. It keeps the heap,
  or the exit code, when it ends in a world with the same one.
\<close>

definition total :: "'a action \<Rightarrow> bool" where
  "total m = (\<forall>w. m w \<noteq> None)"

definition keeps_heap :: "'a action \<Rightarrow> bool" where
  "keeps_heap m = (\<forall>w r w'. m w = Some (r, w') \<longrightarrow> heap w' = heap w)"

definition keeps_exit :: "'a action \<Rightarrow> bool" where
  "keeps_exit m = (\<forall>w r w'. m w = Some (r, w') \<longrightarrow> exitCode w' = exitCode w)"

subsection \<open>The serializer and the amount parser\<close>

text \<open>The decimal digits.\<close>

definition dec_chars :: "char set" where
  "dec_chars = set ''0123456789''"

subsection \<open>The prefetch\<close>

text \<open>
  A reference to a \<open>Uint8Array\<close> of 32 bytes; a reference to a plain array of 32
  numbers that are bytes; the argument lists of the calls of \<open>buildFn\<close> in a trace;
  an action that makes no such call.
\<close>

definition is_hash32 :: "heap \<Rightarrow> val \<Rightarrow> bool" where
  "is_hash32 h v =
     (case v of
        Ref a \<Rightarrow> a < length h \<and> (case h ! a of TypedArray (Uint8Array ws) \<Rightarrow> length ws = 32 | _ \<Rightarrow> False)
      | _ \<Rightarrow> False)"

definition is_byte_array32 :: "heap \<Rightarrow> val \<Rightarrow> bool" where
  "is_byte_array32 h v =
     (case v of
        Ref a \<Rightarrow> a < length h \<and>
          (case h ! a of ArrayObject vs \<Rightarrow> length vs = 32 \<and> list_all is_byte_number vs | _ \<Rightarrow> False)
      | _ \<Rightarrow> False)"

definition builds :: "event list \<Rightarrow> val list list" where
  "builds t = concat (map (\<lambda>ev. case ev of BuildFnCall args \<Rightarrow> [args] | _ \<Rightarrow> []) t)"

definition no_build :: "'a action \<Rightarrow> bool" where
  "no_build m = (\<forall>w r w'. m w = Some (r, w') \<longrightarrow> builds (trace w') = builds (trace w))"

subsection \<open>The keygen proxy\<close>


subsection \<open>The commands and the exit code\<close>








subsection \<open>Example inputs\<close>

text \<open>
  A world where nothing has happened yet, a runtime on Linux without the keygen
  package, and variants of it: one that cannot write files, and three whose children
  fail to spawn from the search path, exit with code 2, or are killed. An SDK
  without network, and SDKs whose network answers with a history, with a rejection,
  with a body that holds a \<open>BigInt64Array\<close>, and with an accepted transaction.
\<close>

definition empty_world :: world where
  "empty_world = \<lparr>heap = [], stdout = [], stderr = [], exitCode = None, files = (\<lambda>_. None), trace = []\<rparr>"

definition plain_runtime :: runtime where
  "plain_runtime = \<lparr>
     object_toString = (\<lambda>h v. Inr ''[object Object]''),
     number_toString = (\<lambda>q. ''0.5''),
     call_function = (\<lambda>n h this args. (Inr (Prim VUndefined), h)),
     JSON_parse = (\<lambda>h s. (Inl (SyntaxError ''Unexpected end of JSON input''), h)),
     fs_write_error = (\<lambda>p. None),
     path_resolve = (\<lambda>p. p),
     path_resolve_from = (\<lambda>d p. d @ ''/'' @ p),
     path_dirname = (\<lambda>p. p),
     platform = ''linux'',
     execPath = ''/usr/bin/node'',
     require_resolve = (\<lambda>m. Inl (Error ''Cannot find module'')),
     require = (\<lambda>h p. (Inl (Error ''Cannot find module''), h)),
     spawn_child = (\<lambda>cmd args shell. [CloseEvent (Some 0) None])\<rparr>"





definition offline_sdk :: sdk where
  "offline_sdk = \<lparr>
     Connection = (\<lambda>h cluster. (Inr (Prim (VString ''connection'')), h)),
     sendTransaction = (\<lambda>h connection tx. (Inl (Error ''fetch failed''), h)),
     SystemProgram = (\<lambda>name h args. (Inr (Prim (VString name)), h))\<rparr>"

definition broken_sdk :: sdk where
  "broken_sdk = \<lparr>
     Connection = (\<lambda>h cluster. (Inr (Prim (VString ''connection'')), h)),
     sendTransaction = (\<lambda>h connection tx. (Inl (Error ''fetch failed''), h)),
     SystemProgram = (\<lambda>name h args. (Inl (TypeError ''invalid address''), h))\<rparr>"

definition history_heap :: heap where
  "history_heap =
     [PlainObject [(''ok'', Prim (VBoolean True)), (''decoded'', Ref 1)],
      MapObject [(BASE_POD_HEX, Ref 2)],
      PlainObject [(''lastTxHash'', Ref 3)],
      ArrayObject (replicate 32 (Prim (VNumber (Finite 7))))]"

definition history_sdk :: sdk where
  "history_sdk = \<lparr>
     Connection = (\<lambda>h cluster. (Inr (Prim (VString ''connection'')), h)),
     sendTransaction = (\<lambda>h connection tx. (Inr (Ref 0), history_heap)),
     SystemProgram = (\<lambda>name h args. (Inr (Prim (VString name)), h))\<rparr>"

definition rejecting_sdk :: sdk where
  "rejecting_sdk = \<lparr>
     Connection = (\<lambda>h cluster. (Inr (Prim (VString ''connection'')), h)),
     sendTransaction = (\<lambda>h connection tx.
        (Inr (Ref (length h)),
         h @ [PlainObject [(''ok'', Prim (VBoolean False)), (''status'', Prim (VNumber (Finite 400)))]])),
     SystemProgram = (\<lambda>name h args. (Inr (Prim (VString name)), h))\<rparr>"



section \<open>Properties of the serializer\<close>

















lemma is_byte_number_int: "0 \<le> i \<Longrightarrow> i \<le> 255 \<Longrightarrow> is_byte_number (Prim (num_of_int i))"
  by (simp add: is_byte_number_def num_of_int_def is_integer_def)

lemma is_byte_number_uint: "is_byte_number (Prim (num_of_int (uint (w :: 8 word))))"
proof -
  have "uint w < 2 ^ LENGTH(8)" by (rule uint_lt2p)
  then have "uint w \<le> 255" by simp
  moreover have "0 \<le> uint w" by (rule uint_ge_0)
  ultimately show ?thesis by (rule is_byte_number_int [rotated])
qed

lemma serialize_TypedArray:
  assumes "a < length h" "h ! a = TypedArray t"
  shows "serialize h (Ref a) = Some (Inr (JArray (map JPrim (elements t))))"
proof -
  from assms(1) obtain m where m: "length h = Suc m" by (cases "length h") auto
  with assms show ?thesis by (simp add: serialize_def)
qed

lemma serialize_DataView:
  assumes "a < length h" "h ! a = DataView buf off len" "off + len \<le> length buf"
  shows "serialize h (Ref a) =
    Some (Inr (JArray (map (\<lambda>w. JPrim (num_of_int (uint w))) (take len (drop off buf)))))"
proof -
  from assms(1) obtain m where m: "length h = Suc m" by (cases "length h") auto
  with assms show ?thesis by (simp add: serialize_def)
qed

text \<open>
  Claim C7, as amended. For a \<open>Uint8Array\<close>, a \<open>Uint8ClampedArray\<close> and a
  \<open>DataView\<close> inside its buffer, \<open>serialize\<close> produces the ordered sequence of the
  bytes, each an integer number between 0 and 255. For the other typed arrays of
  numbers it produces the ordered sequence of the elements of the view at their own
  width and sign, which need not be bytes.
\<close>

theorem serialize_byte_views:
  assumes "a < length h"
  shows
   "(h ! a = TypedArray (Uint8Array ws) \<or> h ! a = TypedArray (Uint8ClampedArray ws) \<longrightarrow>
       (\<exists>ps. serialize h (Ref a) = Some (Inr (JArray (map JPrim ps))) \<and>
             length ps = length ws \<and> (\<forall>p \<in> set ps. is_byte_number (Prim p)))) \<and>
    (h ! a = DataView buf off len \<and> off + len \<le> length buf \<longrightarrow>
       (\<exists>ps. serialize h (Ref a) = Some (Inr (JArray (map JPrim ps))) \<and>
             length ps = len \<and> (\<forall>p \<in> set ps. is_byte_number (Prim p)))) \<and>
    (h ! a = TypedArray (Int8Array ws) \<longrightarrow>
       serialize h (Ref a) = Some (Inr (JArray (map (\<lambda>w. JPrim (num_of_int (sint w))) ws)))) \<and>
    (h ! a = TypedArray (Uint16Array ws16) \<longrightarrow>
       serialize h (Ref a) = Some (Inr (JArray (map (\<lambda>w. JPrim (num_of_int (uint w))) ws16)))) \<and>
    (h ! a = TypedArray (Int16Array ws16) \<longrightarrow>
       serialize h (Ref a) = Some (Inr (JArray (map (\<lambda>w. JPrim (num_of_int (sint w))) ws16)))) \<and>
    (h ! a = TypedArray (Uint32Array ws32) \<longrightarrow>
       serialize h (Ref a) = Some (Inr (JArray (map (\<lambda>w. JPrim (num_of_int (uint w))) ws32)))) \<and>
    (h ! a = TypedArray (Int32Array ws32) \<longrightarrow>
       serialize h (Ref a) = Some (Inr (JArray (map (\<lambda>w. JPrim (num_of_int (sint w))) ws32)))) \<and>
    (h ! a = TypedArray (Float32Array ns) \<or> h ! a = TypedArray (Float64Array ns) \<longrightarrow>
       serialize h (Ref a) = Some (Inr (JArray (map (\<lambda>n. JPrim (VNumber n)) ns))))"
proof -
  have u8: "\<exists>ps. serialize h (Ref a) = Some (Inr (JArray (map JPrim ps))) \<and>
             length ps = length ws \<and> (\<forall>p \<in> set ps. is_byte_number (Prim p))"
    if "h ! a = TypedArray (Uint8Array ws) \<or> h ! a = TypedArray (Uint8ClampedArray ws)"
  proof -
    from that have "serialize h (Ref a) = Some (Inr (JArray (map JPrim (map (\<lambda>w. num_of_int (uint w)) ws))))"
      using serialize_TypedArray [OF assms] by auto
    then show ?thesis
      by (intro exI [of _ "map (\<lambda>w. num_of_int (uint w)) ws"]) (auto simp: is_byte_number_uint)
  qed
  have dv: "\<exists>ps. serialize h (Ref a) = Some (Inr (JArray (map JPrim ps))) \<and>
             length ps = len \<and> (\<forall>p \<in> set ps. is_byte_number (Prim p))"
    if "h ! a = DataView buf off len \<and> off + len \<le> length buf"
  proof -
    from that have "serialize h (Ref a) =
        Some (Inr (JArray (map JPrim (map (\<lambda>w. num_of_int (uint w)) (take len (drop off buf))))))"
      using serialize_DataView [OF assms, of buf off len] by (simp add: comp_def)
    moreover from that have "len \<le> length buf - off" by linarith
    then have "length (take len (drop off buf)) = len" by simp
    ultimately show ?thesis
      by (intro exI [of _ "map (\<lambda>w. num_of_int (uint w)) (take len (drop off buf))"])
         (auto simp: is_byte_number_uint simp del: length_take)
  qed
  show ?thesis
    using u8 dv serialize_TypedArray [OF assms] by (auto simp: comp_def)
qed

theorem serialize_byte_views_witness:
  "serialize [TypedArray (Uint8Array [0, 255]), DataView [1, 2, 3, 4] 1 2, TypedArray (Int8Array [255]),
              TypedArray (Uint16Array [65535]), TypedArray (Int16Array [65535]),
              TypedArray (Uint32Array [7]), TypedArray (Int32Array [7]),
              TypedArray (Float64Array [Finite (1 / 2)])] (Ref 0) =
     Some (Inr (JArray [JPrim (VNumber (Finite 0)), JPrim (VNumber (Finite 255))])) \<and>
   (\<exists>ps. serialize [TypedArray (Uint8Array [0, 255]), DataView [1, 2, 3, 4] 1 2, TypedArray (Int8Array [255]),
              TypedArray (Uint16Array [65535]), TypedArray (Int16Array [65535]),
              TypedArray (Uint32Array [7]), TypedArray (Int32Array [7]),
              TypedArray (Float64Array [Finite (1 / 2)])] (Ref 1) =
      Some (Inr (JArray (map JPrim ps))) \<and> length ps = 2 \<and> (\<forall>p \<in> set ps. is_byte_number (Prim p))) \<and>
   serialize [TypedArray (Uint8Array [0, 255]), DataView [1, 2, 3, 4] 1 2, TypedArray (Int8Array [255]),
              TypedArray (Uint16Array [65535]), TypedArray (Int16Array [65535]),
              TypedArray (Uint32Array [7]), TypedArray (Int32Array [7]),
              TypedArray (Float64Array [Finite (1 / 2)])] (Ref 2) =
     Some (Inr (JArray [JPrim (VNumber (Finite (- 1)))])) \<and>
   serialize [TypedArray (Uint8Array [0, 255]), DataView [1, 2, 3, 4] 1 2, TypedArray (Int8Array [255]),
              TypedArray (Uint16Array [65535]), TypedArray (Int16Array [65535]),
              TypedArray (Uint32Array [7]), TypedArray (Int32Array [7]),
              TypedArray (Float64Array [Finite (1 / 2)])] (Ref 3) =
     Some (Inr (JArray [JPrim (VNumber (Finite 65535))])) \<and>
   serialize [TypedArray (Uint8Array [0, 255]), DataView [1, 2, 3, 4] 1 2, TypedArray (Int8Array [255]),
              TypedArray (Uint16Array [65535]), TypedArray (Int16Array [65535]),
              TypedArray (Uint32Array [7]), TypedArray (Int32Array [7]),
              TypedArray (Float64Array [Finite (1 / 2)])] (Ref 4) =
     Some (Inr (JArray [JPrim (VNumber (Finite (- 1)))])) \<and>
   serialize [TypedArray (Uint8Array [0, 255]), DataView [1, 2, 3, 4] 1 2, TypedArray (Int8Array [255]),
              TypedArray (Uint16Array [65535]), TypedArray (Int16Array [65535]),
              TypedArray (Uint32Array [7]), TypedArray (Int32Array [7]),
              TypedArray (Float64Array [Finite (1 / 2)])] (Ref 5) =
     Some (Inr (JArray [JPrim (VNumber (Finite 7))])) \<and>
   serialize [TypedArray (Uint8Array [0, 255]), DataView [1, 2, 3, 4] 1 2, TypedArray (Int8Array [255]),
              TypedArray (Uint16Array [65535]), TypedArray (Int16Array [65535]),
              TypedArray (Uint32Array [7]), TypedArray (Int32Array [7]),
              TypedArray (Float64Array [Finite (1 / 2)])] (Ref 6) =
     Some (Inr (JArray [JPrim (VNumber (Finite 7))])) \<and>
   serialize [TypedArray (Uint8Array [0, 255]), DataView [1, 2, 3, 4] 1 2, TypedArray (Int8Array [255]),
              TypedArray (Uint16Array [65535]), TypedArray (Int16Array [65535]),
              TypedArray (Uint32Array [7]), TypedArray (Int32Array [7]),
              TypedArray (Float64Array [Finite (1 / 2)])] (Ref 7) =
     Some (Inr (JArray [JPrim (VNumber (Finite (1 / 2)))]))"
proof -
  let ?h = "[TypedArray (Uint8Array [0, 255]), DataView [1, 2, 3, 4] 1 2, TypedArray (Int8Array [255]),
              TypedArray (Uint16Array [65535]), TypedArray (Int16Array [65535]),
              TypedArray (Uint32Array [7]), TypedArray (Int32Array [7]),
              TypedArray (Float64Array [Finite (1 / 2)])]"
  have l: "(0::nat) < length ?h" "(1::nat) < length ?h" "(2::nat) < length ?h" "(3::nat) < length ?h"
    "(4::nat) < length ?h" "(5::nat) < length ?h" "(6::nat) < length ?h" "(7::nat) < length ?h"
    by simp_all
  have 0: "serialize ?h (Ref 0) =
     Some (Inr (JArray [JPrim (VNumber (Finite 0)), JPrim (VNumber (Finite 255))]))"
    by (simp add: serialize_def num_of_int_def)
  have 1: "\<exists>ps. serialize ?h (Ref 1) = Some (Inr (JArray (map JPrim ps))) \<and> length ps = 2 \<and>
      (\<forall>p \<in> set ps. is_byte_number (Prim p))"
    using serialize_byte_views [OF l(2), where buf = "[1, 2, 3, 4]" and off = 1 and len = 2] by simp
  have 2: "serialize ?h (Ref 2) = Some (Inr (JArray [JPrim (VNumber (Finite (- 1)))]))"
    using serialize_byte_views [OF l(3), where ws = "[255]"] by (simp add: num_of_int_def)
  have 3: "serialize ?h (Ref 3) = Some (Inr (JArray [JPrim (VNumber (Finite 65535))]))"
    using serialize_byte_views [OF l(4), where ?ws16.0 = "[65535]"] by (simp add: num_of_int_def)
  have 4: "serialize ?h (Ref 4) = Some (Inr (JArray [JPrim (VNumber (Finite (- 1)))]))"
    using serialize_byte_views [OF l(5), where ?ws16.0 = "[65535]"] by (simp add: num_of_int_def)
  have 5: "serialize ?h (Ref 5) = Some (Inr (JArray [JPrim (VNumber (Finite 7))]))"
    using serialize_byte_views [OF l(6), where ?ws32.0 = "[7]"] by (simp add: num_of_int_def)
  have 6: "serialize ?h (Ref 6) = Some (Inr (JArray [JPrim (VNumber (Finite 7))]))"
    using serialize_byte_views [OF l(7), where ?ws32.0 = "[7]"] by (simp add: num_of_int_def)
  have 7: "serialize ?h (Ref 7) = Some (Inr (JArray [JPrim (VNumber (Finite (1 / 2)))]))"
    using serialize_byte_views [OF l(8), where ns = "[Finite (1 / 2)]"] by simp
  from 0 1 2 3 4 5 6 7 show ?thesis by blast
qed

theorem serialize_byte_views_counterexample:
  "serialize [TypedArray (Int8Array [255])] (Ref 0) = Some (Inr (JArray [JPrim (VNumber (Finite (- 1)))])) \<and>
   \<not> is_byte_number (Prim (VNumber (Finite (- 1))))"
  by (simp add: serialize_def num_of_int_def is_byte_number_def)

section \<open>Properties of the amount parser\<close>

lemma digit_char_dec: "d < 10 \<Longrightarrow> digit_char d \<in> dec_chars"
proof -
  assume "d < 10"
  then have "d \<in> {0,1,2,3,4,5,6,7,8,9}" by auto
  then show ?thesis by (auto simp: digit_char_def dec_chars_def)
qed

lemma digit_value_digit_char: "d < 10 \<Longrightarrow> digit_value (digit_char d) = Some d"
proof -
  assume "d < 10"
  then have "d \<in> {0,1,2,3,4,5,6,7,8,9}" by auto
  then show ?thesis by (auto simp: digit_char_def digit_value_def)
qed

lemma dec_not_special:
  "c \<in> dec_chars \<Longrightarrow> \<not> is_whitespace c \<and> c \<noteq> CHR ''n'' \<and> c \<noteq> CHR ''+'' \<and> c \<noteq> CHR ''-''
     \<and> c \<noteq> CHR ''x'' \<and> c \<noteq> CHR ''X'' \<and> c \<noteq> CHR ''o'' \<and> c \<noteq> CHR ''O'' \<and> c \<noteq> CHR ''b'' \<and> c \<noteq> CHR ''B''"
  by (auto simp: dec_chars_def is_whitespace_def)

lemma digits_dec: "set (digits n) \<subseteq> dec_chars"
proof (induction n rule: digits.induct)
  case (1 n)
  show ?case
  proof (cases "n < 10")
    case True
    then show ?thesis by (subst digits.simps) (simp add: digit_char_dec)
  next
    case False
    with 1 show ?thesis by (subst digits.simps) (simp add: digit_char_dec)
  qed
qed

lemma digits_nonempty: "digits n \<noteq> []"
  by (subst digits.simps) simp

lemma parse_digits_snoc:
  "parse_digits r acc (xs @ [c]) =
     (case parse_digits r acc xs of
        None \<Rightarrow> None
      | Some m \<Rightarrow> (case digit_value c of None \<Rightarrow> None | Some d \<Rightarrow> if d < r then Some (m * r + d) else None))"
  by (induction xs arbitrary: acc) (auto split: option.splits)

lemma parse_digits_digits: "parse_digits 10 0 (digits n) = Some n"
proof (induction n rule: digits.induct)
  case (1 n)
  show ?case
  proof (cases "n < 10")
    case True
    then show ?thesis by (subst digits.simps) (simp add: digit_value_digit_char)
  next
    case False
    with 1 have "parse_digits 10 0 (digits (n div 10)) = Some (n div 10)" by simp
    with False show ?thesis
      by (subst digits.simps) (simp add: parse_digits_snoc digit_value_digit_char)
  qed
qed

lemma parse_nat_digits: "parse_nat 10 (digits n) = Some n"
  by (simp add: parse_nat_def digits_nonempty parse_digits_digits)

lemma trim_id:
  assumes "s \<noteq> []" "\<not> is_whitespace (hd s)" "\<not> is_whitespace (last s)"
  shows "trim s = s"
proof -
  from assms have 1: "dropWhile is_whitespace s = s" by (cases s) auto
  from assms have "rev s \<noteq> []" "\<not> is_whitespace (hd (rev s))" by (auto simp: hd_rev)
  then have "dropWhile is_whitespace (rev s) = rev s" by (cases "rev s") auto
  with 1 show ?thesis by (simp add: trim_def)
qed

lemma hd_digits: "hd (digits n) \<in> dec_chars"
  using digits_dec [of n] digits_nonempty [of n] by (cases "digits n") auto

lemma last_digits: "last (digits n) \<in> dec_chars"
  using digits_dec [of n] digits_nonempty [of n] last_in_set by blast

lemma parse_literal_digits: "parse_literal (digits n) = Some (int n)"
proof -
  obtain c cs where d: "digits n = c # cs" using digits_nonempty [of n] by (cases "digits n") auto
  with digits_dec [of n] have c: "c \<in> dec_chars" and cs: "set cs \<subseteq> dec_chars" by auto
  have t2: "take 2 (digits n) \<noteq> [a, b]" if "b \<notin> dec_chars" for a b
  proof (cases cs)
    case Nil
    with d show ?thesis by simp
  next
    case (Cons e es)
    with cs have "e \<in> dec_chars" by simp
    with d Cons that show ?thesis by (auto simp: numeral_2_eq_2)
  qed
  have t1: "take (Suc 0) (digits n) = [c]" using d by simp
  have nd: "CHR ''x'' \<notin> dec_chars" "CHR ''X'' \<notin> dec_chars" "CHR ''o'' \<notin> dec_chars"
    "CHR ''O'' \<notin> dec_chars" "CHR ''b'' \<notin> dec_chars" "CHR ''B'' \<notin> dec_chars"
    by (simp_all add: dec_chars_def)
  from c have "c \<noteq> CHR ''+''" "c \<noteq> CHR ''-''" using dec_not_special by blast+
  then show ?thesis
    unfolding parse_literal_def using t2 [OF nd(1)] t2 [OF nd(2)] t2 [OF nd(3)] t2 [OF nd(4)] t2 [OF nd(5)] t2 [OF nd(6)]
    by (simp add: t1 parse_nat_digits)
qed

lemma parse_literal_minus_digits: "parse_literal (CHR ''-'' # digits n) = Some (- int n)"
proof -
  obtain c cs where d: "digits n = c # cs" using digits_nonempty [of n] by (cases "digits n") auto
  then show ?thesis
    unfolding parse_literal_def by (simp add: numeral_2_eq_2 parse_nat_digits [of n, unfolded d])
qed

lemma StringToBigInt_toString: "StringToBigInt (bigint_toString x) = Some x"
proof (cases "x < 0")
  case True
  have "trim (CHR ''-'' # digits (nat (- x))) = CHR ''-'' # digits (nat (- x))"
    using last_digits [of "nat (- x)"] dec_not_special digits_nonempty [of "nat (- x)"]
    by (intro trim_id) (auto simp: is_whitespace_def)
  with True show ?thesis
    by (simp add: StringToBigInt_def bigint_toString_def parse_literal_minus_digits)
next
  case False
  have "trim (digits (nat x)) = digits (nat x)"
    using last_digits [of "nat x"] hd_digits [of "nat x"] dec_not_special digits_nonempty [of "nat x"]
    by (intro trim_id) auto
  with False show ?thesis
    by (simp add: StringToBigInt_def bigint_toString_def parse_literal_digits digits_nonempty)
qed

lemma last_bigint_toString: "bigint_toString x \<noteq> [] \<and> last (bigint_toString x) \<noteq> CHR ''n''"
  using last_digits dec_not_special digits_nonempty by (auto simp: bigint_toString_def)

lemma toBigInt_toString: "toBigInt rt h (Prim (VString (bigint_toString x))) = Inr x"
  using last_bigint_toString [of x]
  by (simp add: toBigInt_def BigInt_of_string_def StringToBigInt_toString)

lemma serialize_bigint: "serialize h (Prim (VBigInt x)) = Some (Inr (JPrim (VString (bigint_toString x))))"
  by (simp add: serialize_def)

text \<open>
  Claim C8. \<open>serialize\<close> maps a big integer to its decimal string, \<open>toBigInt\<close> maps
  that string back to the same integer, and serializing again gives the same string.
\<close>

theorem bigint_round_trip:
  "serialize h (Prim (VBigInt x)) = Some (Inr (JPrim (VString (bigint_toString x)))) \<and>
   toBigInt rt h (Prim (VString (bigint_toString x))) = Inr x \<and>
   (case serialize h (Prim (VBigInt x)) of
      Some (Inr (JPrim s)) \<Rightarrow>
        (case toBigInt rt h (Prim s) of
           Inr y \<Rightarrow> serialize h (Prim (VBigInt y)) = serialize h (Prim (VBigInt x))
         | Inl e \<Rightarrow> False)
    | _ \<Rightarrow> False)"
  by (simp add: serialize_bigint toBigInt_toString)

theorem bigint_round_trip_witness:
  "serialize [] (Prim (VBigInt (- 9007199254740993))) = Some (Inr (JPrim (VString ''-9007199254740993''))) \<and>
   toBigInt plain_runtime [] (Prim (VString ''-9007199254740993'')) = Inr (- 9007199254740993)"
proof -
  have "bigint_toString (- 9007199254740993) = ''-9007199254740993''"
    by (simp add: bigint_toString_def digits.simps digit_char_def)
  with bigint_round_trip [of "[]" "- 9007199254740993" plain_runtime] show ?thesis by simp
qed

section \<open>Properties of the prefetch\<close>

lemma total_ret [intro!]: "total (ret x)" by (simp add: total_def ret_def)
lemma total_throw [intro!]: "total (throw e)" by (simp add: total_def throw_def)
lemma total_read [intro!]: "total (read f)" by (simp add: total_def read_def)
lemma total_external [intro!]: "total (external ev f)"
  by (simp add: total_def external_def split: prod.splits)
lemma total_alloc [intro!]: "total (alloc ob)" by (simp add: total_def alloc_def)
lemma total_write_stdout [intro!]: "total (write_stdout s)" by (simp add: total_def write_stdout_def)
lemma total_write_stderr [intro!]: "total (write_stderr s)" by (simp add: total_def write_stderr_def)
lemma total_set_exitCode [intro!]: "total (set_exitCode c)" by (simp add: total_def set_exitCode_def)

lemma total_and_then [intro!]: "total m \<Longrightarrow> (\<And>x. total (f x)) \<Longrightarrow> total (and_then m f)"
  by (auto simp: total_def and_then_def split: option.splits sum.splits prod.splits)

lemma total_try_catch [intro!]: "total m \<Longrightarrow> (\<And>e. total (f e)) \<Longrightarrow> total (try_catch m f)"
  by (auto simp: total_def try_catch_def split: option.splits sum.splits prod.splits)

lemma total_if [intro!]: "(b \<Longrightarrow> total m) \<Longrightarrow> (\<not> b \<Longrightarrow> total n) \<Longrightarrow> total (if b then m else n)"
  by simp

lemma totalD: "total m \<Longrightarrow> \<exists>r w'. m w = Some (r, w')"
proof -
  assume "total m"
  then have "m w \<noteq> None" by (simp add: total_def)
  then obtain p where "m w = Some p" by auto
  then show ?thesis by (cases p) auto
qed

lemma and_then_InrD:
  "and_then m f w = Some (Inr y, w') \<Longrightarrow> \<exists>x w1. m w = Some (Inr x, w1) \<and> f x w1 = Some (Inr y, w')"
  by (auto simp: and_then_def split: option.splits sum.splits prod.splits)


lemma total_call [intro!]: "total (call rt f this args)"
  by (cases f) (auto simp: call_def)

lemma total_accept_last [intro!]: "total (accept_last v)"
proof -
  have "accept_last v w \<noteq> None" for w
  proof -
    have t: "total (and_then (alloc ob) (\<lambda>bytes. ret (g bytes)))" for ob and g :: "val \<Rightarrow> val" by auto
    show ?thesis
      using t [unfolded total_def]
      by (auto simp: accept_last_def ret_def throw_def
          split: val.splits obj.splits typed_array.splits)
  qed
  then show ?thesis by (simp add: total_def)
qed

lemma total_fetch_body: "total (fetch_body sdk rt connection address)"
  unfolding fetch_body_def
  by (intro total_and_then total_external total_read total_if total_ret total_call total_accept_last)
     (auto split: val.splits prim.splits)

lemma accept_last_result:
  assumes "accept_last v w = Some (Inr r, w')"
  shows "trace w' = trace w \<and> (r = Prim VUndefined \<or> is_hash32 (heap w') r)
         \<and> (r \<noteq> Prim VUndefined \<longrightarrow> is_hash32 (heap w) v \<or> is_byte_array32 (heap w) v)"
  using assms
  by (auto simp: accept_last_def ret_def throw_def and_then_def alloc_def is_hash32_def
      is_byte_array32_def nth_append
      split: val.splits obj.splits typed_array.splits if_splits)

lemma builds_append [simp]: "builds (xs @ ys) = builds xs @ builds ys"
  by (simp add: builds_def)

lemma builds_simps [simp]:
  "builds [] = []"
  "builds (SdkCall n a # evs) = builds evs"
  "builds (FunctionCall k t a # evs) = builds evs"
  "builds (RequireResolve s # evs) = builds evs"
  "builds (Require s # evs) = builds evs"
  "builds (Spawn c as sh # evs) = builds evs"
  "builds (BuildFnCall a # evs) = a # builds evs"
  by (simp_all add: builds_def)

lemma no_build_ret [intro!]: "no_build (ret x)" by (simp add: no_build_def ret_def)
lemma no_build_throw [intro!]: "no_build (throw e)" by (simp add: no_build_def throw_def)
lemma no_build_read [intro!]: "no_build (read f)" by (simp add: no_build_def read_def)
lemma no_build_alloc [intro!]: "no_build (alloc ob)" by (auto simp: no_build_def alloc_def)
lemma no_build_SdkCall [intro!]: "no_build (external (SdkCall n a) f)"
  by (auto simp: no_build_def external_def split: prod.splits)
lemma no_build_FunctionCall [intro!]: "no_build (external (FunctionCall n t a) f)"
  by (auto simp: no_build_def external_def split: prod.splits)

lemma no_build_and_then [intro!]: "no_build m \<Longrightarrow> (\<And>x. no_build (f x)) \<Longrightarrow> no_build (and_then m f)"
  unfolding no_build_def and_then_def
  by (auto split: option.splits sum.splits prod.splits)

lemma no_build_try_catch [intro!]: "no_build m \<Longrightarrow> (\<And>e. no_build (f e)) \<Longrightarrow> no_build (try_catch m f)"
  unfolding no_build_def try_catch_def
  by (auto split: option.splits sum.splits prod.splits)

lemma no_build_if [intro!]: "(b \<Longrightarrow> no_build m) \<Longrightarrow> (\<not> b \<Longrightarrow> no_build n) \<Longrightarrow> no_build (if b then m else n)"
  by simp

lemma no_build_call [intro!]: "no_build (call rt f this args)"
  by (cases f) (auto simp: call_def)

lemma no_build_accept_last [intro!]: "no_build (accept_last v)"
  unfolding no_build_def
  by (auto simp: accept_last_def ret_def throw_def and_then_def alloc_def
      split: val.splits obj.splits typed_array.splits if_splits)

lemma no_build_fetch_body: "no_build (fetch_body sdk rt connection address)"
  unfolding fetch_body_def
  by (intro no_build_and_then no_build_SdkCall no_build_read no_build_if no_build_ret
        no_build_call no_build_accept_last)
     (auto split: val.splits prim.splits)

lemma no_build_fetch: "no_build (fetchPrevTxHashFromNetwork sdk rt connection address)"
  unfolding fetchPrevTxHashFromNetwork_def
  by (intro no_build_try_catch no_build_fetch_body no_build_ret)

lemma external_D:
  "external ev f w = Some (r, w') \<Longrightarrow> trace w' = trace w @ [ev] \<and> (r, heap w') = f (heap w)"
  by (auto simp: external_def split: prod.splits)

lemma read_D: "read f w = Some (r, w') \<Longrightarrow> w' = w \<and> r = f (heap w)"
  by (auto simp: read_def)

lemma ret_D: "ret x w = Some (r, w') \<Longrightarrow> w' = w \<and> r = Inr x"
  by (auto simp: ret_def)

lemma call_D: "call rt f this args w = Some (r, w') \<Longrightarrow> builds (trace w') = builds (trace w)"
  by (cases f) (auto simp: call_def dest!: read_D external_D)

lemma fetch_body_result:
  assumes "fetch_body sdk rt connection address w = Some (Inr r, w')"
  shows "builds (trace w') = builds (trace w) \<and> (r = Prim VUndefined \<or> is_hash32 (heap w') r)"
proof -
  from assms obtain tx w1 res w2 exec abort ok where
    1: "external (SdkCall ''getLastTxHash'' [address]) (\<lambda>h. SystemProgram sdk ''getLastTxHash'' h [address]) w = Some (Inr tx, w1)"
    and 2: "external (SdkCall ''sendTransaction'' [connection, tx]) (\<lambda>h. sendTransaction sdk h connection tx) w1 = Some (Inr res, w2)"
    and 3: "(if \<not> truthy ok \<or> is_nonzero_number exec \<or> is_nonzero_number abort
     then ret (Prim VUndefined)
     else
       and_then (read (\<lambda>h. get_prop h res ''decoded'')) (\<lambda>decoded.
       if truthy decoded
       then
         and_then (read (\<lambda>h. get_prop h decoded ''get'')) (\<lambda>getter.
         case getter of
           Prim (VFunction f) \<Rightarrow>
             and_then (call rt f decoded [Prim (VString BASE_POD_HEX)]) (\<lambda>baseEntry.
             and_then (read (\<lambda>h. opt_get h baseEntry ''lastTxHash'')) accept_last)
         | _ \<Rightarrow> ret (Prim VUndefined))
       else ret (Prim VUndefined))) w2 = Some (Inr r, w')"
    unfolding fetch_body_def
    by (fastforce dest!: and_then_InrD read_D)
  from 1 2 have t2: "builds (trace w2) = builds (trace w)"
    by (auto dest!: external_D)
  show ?thesis
  proof (cases "\<not> truthy ok \<or> is_nonzero_number exec \<or> is_nonzero_number abort")
    case True
    with 3 t2 show ?thesis by (auto dest!: ret_D)
  next
    case False
    with 3 obtain decoded where
      4: "(if truthy decoded
       then
         and_then (read (\<lambda>h. get_prop h decoded ''get'')) (\<lambda>getter.
         case getter of
           Prim (VFunction f) \<Rightarrow>
             and_then (call rt f decoded [Prim (VString BASE_POD_HEX)]) (\<lambda>baseEntry.
             and_then (read (\<lambda>h. opt_get h baseEntry ''lastTxHash'')) accept_last)
         | _ \<Rightarrow> ret (Prim VUndefined))
       else ret (Prim VUndefined)) w2 = Some (Inr r, w')"
      by (fastforce dest!: and_then_InrD read_D)
    show ?thesis
    proof (cases "truthy decoded")
      case False
      with 4 t2 show ?thesis by (auto dest!: ret_D)
    next
      case True
      with 4 obtain getter where
        5: "(case getter of
           Prim (VFunction f) \<Rightarrow>
             and_then (call rt f decoded [Prim (VString BASE_POD_HEX)]) (\<lambda>baseEntry.
             and_then (read (\<lambda>h. opt_get h baseEntry ''lastTxHash'')) accept_last)
         | _ \<Rightarrow> ret (Prim VUndefined)) w2 = Some (Inr r, w')"
        by (fastforce dest!: and_then_InrD read_D)
      show ?thesis
      proof (cases "\<exists>f. getter = Prim (VFunction f)")
        case False
        with 5 have "ret (Prim VUndefined) w2 = Some (Inr r, w')"
          by (auto split: val.splits prim.splits)
        with t2 show ?thesis by (auto dest!: ret_D)
      next
        case True
        then obtain f where "getter = Prim (VFunction f)" by auto
        with 5 obtain baseEntry w3 lastv where
          6: "call rt f decoded [Prim (VString BASE_POD_HEX)] w2 = Some (Inr baseEntry, w3)"
          and 7: "accept_last lastv w3 = Some (Inr r, w')"
          by (fastforce dest!: and_then_InrD read_D)
        from call_D [OF 6] accept_last_result [OF 7] t2 show ?thesis by simp
      qed
    qed
  qed
qed

lemma fetch_result:
  assumes "fetchPrevTxHashFromNetwork sdk rt connection address w = Some (r, w')"
  shows "builds (trace w') = builds (trace w) \<and>
         (\<exists>v. r = Inr v \<and> (v = Prim VUndefined \<or> is_hash32 (heap w') v))"
proof -
  from no_build_fetch assms have b: "builds (trace w') = builds (trace w)"
    unfolding no_build_def by blast
  obtain x w1 where f: "fetch_body sdk rt connection address w = Some (x, w1)"
    using totalD [OF total_fetch_body] by blast
  show ?thesis
  proof (cases x)
    case (Inl e)
    with f assms b show ?thesis
      by (auto simp: fetchPrevTxHashFromNetwork_def try_catch_def ret_def)
  next
    case (Inr v)
    with f assms b fetch_body_result [of sdk rt connection address w v w1] show ?thesis
      by (auto simp: fetchPrevTxHashFromNetwork_def try_catch_def)
  qed
qed

lemma total_fetch: "total (fetchPrevTxHashFromNetwork sdk rt connection address)"
  unfolding fetchPrevTxHashFromNetwork_def
  by (intro total_try_catch total_fetch_body total_ret)

text \<open>
  Claim C1. \<open>fetchPrevTxHashFromNetwork\<close> always returns and never throws. When the
  builder of the query or the network send throws, when the response is not ok, or
  when it carries a non-zero numeric \<open>executionStatus\<close> or \<open>abortCode\<close>, it
  returns \<open>undefined\<close>.
\<close>

theorem fetchPrevTxHashFromNetwork_never_throws:
  "(\<exists>v w'. fetchPrevTxHashFromNetwork sdk rt connection address w = Some (Inr v, w')) \<and>
   (SystemProgram sdk ''getLastTxHash'' (heap w) [address] = (Inl e, h1) \<longrightarrow>
      (\<exists>w'. fetchPrevTxHashFromNetwork sdk rt connection address w = Some (Inr (Prim VUndefined), w'))) \<and>
   (SystemProgram sdk ''getLastTxHash'' (heap w) [address] = (Inr tx, h1) \<and>
    sendTransaction sdk h1 connection tx = (Inl e, h2) \<longrightarrow>
      (\<exists>w'. fetchPrevTxHashFromNetwork sdk rt connection address w = Some (Inr (Prim VUndefined), w'))) \<and>
   (SystemProgram sdk ''getLastTxHash'' (heap w) [address] = (Inr tx, h1) \<and>
    sendTransaction sdk h1 connection tx = (Inr res, h2) \<and>
    (opt_get h2 res ''ok'' = Inr ok \<and> \<not> truthy ok \<or>
     opt_get h2 res ''executionStatus'' = Inr exec \<and> is_nonzero_number exec \<or>
     opt_get h2 res ''abortCode'' = Inr abort \<and> is_nonzero_number abort) \<longrightarrow>
      (\<exists>w'. fetchPrevTxHashFromNetwork sdk rt connection address w = Some (Inr (Prim VUndefined), w')))"
proof -
  have 1: "\<exists>v w'. fetchPrevTxHashFromNetwork sdk rt connection address w = Some (Inr v, w')"
    using totalD [OF total_fetch, of sdk rt connection address w] fetch_result by blast
  have 2: "\<exists>w'. fetchPrevTxHashFromNetwork sdk rt connection address w = Some (Inr (Prim VUndefined), w')"
    if "SystemProgram sdk ''getLastTxHash'' (heap w) [address] = (Inl e, h1)"
    using that
    by (simp add: fetchPrevTxHashFromNetwork_def try_catch_def fetch_body_def and_then_def
        external_def ret_def)
  have 3: "\<exists>w'. fetchPrevTxHashFromNetwork sdk rt connection address w = Some (Inr (Prim VUndefined), w')"
    if "SystemProgram sdk ''getLastTxHash'' (heap w) [address] = (Inr tx, h1) \<and>
        sendTransaction sdk h1 connection tx = (Inl e, h2)"
    using that
    by (simp add: fetchPrevTxHashFromNetwork_def try_catch_def fetch_body_def and_then_def
        external_def ret_def)
  have 4: "\<exists>w'. fetchPrevTxHashFromNetwork sdk rt connection address w = Some (Inr (Prim VUndefined), w')"
    if "SystemProgram sdk ''getLastTxHash'' (heap w) [address] = (Inr tx, h1) \<and>
        sendTransaction sdk h1 connection tx = (Inr res, h2) \<and>
        (opt_get h2 res ''ok'' = Inr ok \<and> \<not> truthy ok \<or>
         opt_get h2 res ''executionStatus'' = Inr exec \<and> is_nonzero_number exec \<or>
         opt_get h2 res ''abortCode'' = Inr abort \<and> is_nonzero_number abort)"
    using that
    by (auto simp: fetchPrevTxHashFromNetwork_def try_catch_def fetch_body_def and_then_def
        external_def ret_def read_def split: sum.splits)
  from 1 2 3 4 show ?thesis by blast
qed

theorem fetchPrevTxHashFromNetwork_never_throws_witness:
  "SystemProgram broken_sdk ''getLastTxHash'' (heap empty_world) [Prim (VString ''lea1abc'')]
     = (Inl (TypeError ''invalid address''), []) \<and>
   (\<exists>w'. fetchPrevTxHashFromNetwork broken_sdk plain_runtime (Prim (VString ''connection''))
      (Prim (VString ''lea1abc'')) empty_world = Some (Inr (Prim VUndefined), w')) \<and>
   SystemProgram offline_sdk ''getLastTxHash'' (heap empty_world) [Prim (VString ''lea1abc'')]
     = (Inr (Prim (VString ''getLastTxHash'')), []) \<and>
   sendTransaction offline_sdk [] (Prim (VString ''connection'')) (Prim (VString ''getLastTxHash''))
     = (Inl (Error ''fetch failed''), []) \<and>
   (\<exists>w'. fetchPrevTxHashFromNetwork offline_sdk plain_runtime (Prim (VString ''connection''))
      (Prim (VString ''lea1abc'')) empty_world = Some (Inr (Prim VUndefined), w')) \<and>
   SystemProgram rejecting_sdk ''getLastTxHash'' (heap empty_world) [Prim (VString ''lea1abc'')]
     = (Inr (Prim (VString ''getLastTxHash'')), []) \<and>
   sendTransaction rejecting_sdk [] (Prim (VString ''connection'')) (Prim (VString ''getLastTxHash''))
     = (Inr (Ref 0), [PlainObject [(''ok'', Prim (VBoolean False)), (''status'', Prim (VNumber (Finite 400)))]]) \<and>
   opt_get [PlainObject [(''ok'', Prim (VBoolean False)), (''status'', Prim (VNumber (Finite 400)))]] (Ref 0) ''ok''
     = Inr (Prim (VBoolean False)) \<and>
   \<not> truthy (Prim (VBoolean False)) \<and>
   (\<exists>w'. fetchPrevTxHashFromNetwork rejecting_sdk plain_runtime (Prim (VString ''connection''))
      (Prim (VString ''lea1abc'')) empty_world = Some (Inr (Prim VUndefined), w'))"
proof -
  let ?c = "Prim (VString ''connection'')" and ?a = "Prim (VString ''lea1abc'')"
  let ?h = "[PlainObject [(''ok'', Prim (VBoolean False)), (''status'', Prim (VNumber (Finite 400)))]]"
  have 0: "SystemProgram broken_sdk ''getLastTxHash'' (heap empty_world) [?a]
     = (Inl (TypeError ''invalid address''), [])"
    by (simp add: broken_sdk_def empty_world_def)
  have 1: "SystemProgram offline_sdk ''getLastTxHash'' (heap empty_world) [?a]
     = (Inr (Prim (VString ''getLastTxHash'')), [])"
    by (simp add: offline_sdk_def empty_world_def)
  have 2: "sendTransaction offline_sdk [] ?c (Prim (VString ''getLastTxHash''))
     = (Inl (Error ''fetch failed''), [])"
    by (simp add: offline_sdk_def)
  have 3: "SystemProgram rejecting_sdk ''getLastTxHash'' (heap empty_world) [?a]
     = (Inr (Prim (VString ''getLastTxHash'')), [])"
    by (simp add: rejecting_sdk_def empty_world_def)
  have 4: "sendTransaction rejecting_sdk [] ?c (Prim (VString ''getLastTxHash'')) = (Inr (Ref 0), ?h)"
    by (simp add: rejecting_sdk_def)
  have 5: "opt_get ?h (Ref 0) ''ok'' = Inr (Prim (VBoolean False))"
    by (simp add: opt_get_def get_prop_def)
  have 6: "\<not> truthy (Prim (VBoolean False))"
    by (simp add: truthy_def)
  have a: "\<exists>w'. fetchPrevTxHashFromNetwork broken_sdk plain_runtime ?c ?a empty_world
      = Some (Inr (Prim VUndefined), w')"
    using fetchPrevTxHashFromNetwork_never_throws
      [of broken_sdk plain_runtime ?c ?a empty_world "TypeError ''invalid address''" "[]"] 0
    by simp
  have b: "\<exists>w'. fetchPrevTxHashFromNetwork offline_sdk plain_runtime ?c ?a empty_world
      = Some (Inr (Prim VUndefined), w')"
    using fetchPrevTxHashFromNetwork_never_throws
      [of offline_sdk plain_runtime ?c ?a empty_world "Error ''fetch failed''" "[]"
          "Prim (VString ''getLastTxHash'')" "[]"] 1 2
    by simp
  have c: "\<exists>w'. fetchPrevTxHashFromNetwork rejecting_sdk plain_runtime ?c ?a empty_world
      = Some (Inr (Prim VUndefined), w')"
    using fetchPrevTxHashFromNetwork_never_throws
      [of rejecting_sdk plain_runtime ?c ?a empty_world _ "[]"
          "Prim (VString ''getLastTxHash'')" ?h "Ref 0" "Prim (VBoolean False)"] 3 4 5 6
    by simp
  from 0 1 2 3 4 5 6 a b c show ?thesis by simp
qed

text \<open>
  Claim C3. A value that \<open>fetchPrevTxHashFromNetwork\<close> returns and that is not
  \<open>undefined\<close> is a \<open>Uint8Array\<close> of exactly 32 elements, each an unsigned byte. A
  candidate \<open>lastTxHash\<close> is only accepted when it is such an array, or a plain
  array of 32 integers between 0 and 255; any other length or shape yields
  \<open>undefined\<close>.
\<close>

theorem prev_hash_is_32_bytes:
  "(fetchPrevTxHashFromNetwork sdk rt connection address w = Some (Inr v, w') \<and> v \<noteq> Prim VUndefined
      \<longrightarrow> is_hash32 (heap w') v) \<and>
   (accept_last candidate w0 = Some (Inr v0, w0') \<and> v0 \<noteq> Prim VUndefined
      \<longrightarrow> is_hash32 (heap w0) candidate \<or> is_byte_array32 (heap w0) candidate)"
  using fetch_result [of sdk rt connection address w "Inr v" w'] accept_last_result [of candidate w0 v0 w0']
  by auto

lemma list_all_replicate: "list_all P (replicate n x) = (n = 0 \<or> P x)"
  by (induction n) auto

theorem prev_hash_is_32_bytes_witness:
  "fetchPrevTxHashFromNetwork history_sdk plain_runtime (Prim (VString ''connection''))
      (Prim (VString ''lea1abc'')) empty_world
     = Some (Inr (Ref 4),
         \<lparr>heap = history_heap @ [TypedArray (Uint8Array (replicate 32 7))], stdout = [], stderr = [],
          exitCode = None, files = (\<lambda>_. None),
          trace = [SdkCall ''getLastTxHash'' [Prim (VString ''lea1abc'')],
                   SdkCall ''sendTransaction'' [Prim (VString ''connection''), Prim (VString ''getLastTxHash'')]]\<rparr>) \<and>
   Ref 4 \<noteq> Prim VUndefined \<and>
   is_hash32 (history_heap @ [TypedArray (Uint8Array (replicate 32 7))]) (Ref 4) \<and>
   accept_last (Ref 3) (empty_world\<lparr>heap := history_heap\<rparr>)
     = Some (Inr (Ref 4), empty_world\<lparr>heap := history_heap @ [TypedArray (Uint8Array (replicate 32 7))]\<rparr>) \<and>
   (is_hash32 history_heap (Ref 3) \<or> is_byte_array32 history_heap (Ref 3))"
proof -
  let ?w' = "\<lparr>heap = history_heap @ [TypedArray (Uint8Array (replicate 32 7))], stdout = [], stderr = [],
          exitCode = None, files = (\<lambda>_. None),
          trace = [SdkCall ''getLastTxHash'' [Prim (VString ''lea1abc'')],
                   SdkCall ''sendTransaction'' [Prim (VString ''connection''), Prim (VString ''getLastTxHash'')]]\<rparr>"
  have b: "is_byte_number (Prim (VNumber (Finite 7)))"
    by (simp add: is_byte_number_def is_integer_def)
  have u: "to_uint8 (Prim (VNumber (Finite 7))) = 7"
    by (simp add: to_uint8_def)
  have 1: "fetchPrevTxHashFromNetwork history_sdk plain_runtime (Prim (VString ''connection''))
      (Prim (VString ''lea1abc'')) empty_world = Some (Inr (Ref 4), ?w')"
    by (simp add: fetchPrevTxHashFromNetwork_def try_catch_def fetch_body_def and_then_def
        external_def read_def ret_def history_sdk_def empty_world_def history_heap_def
        opt_get_def get_prop_def truthy_def is_nonzero_number_def call_def accept_last_def
        alloc_def list_all_replicate b u)
  have 2: "accept_last (Ref 3) (empty_world\<lparr>heap := history_heap\<rparr>)
     = Some (Inr (Ref 4), empty_world\<lparr>heap := history_heap @ [TypedArray (Uint8Array (replicate 32 7))]\<rparr>)"
    by (simp add: accept_last_def and_then_def ret_def alloc_def empty_world_def history_heap_def
        list_all_replicate b u)
  have 3: "heap (empty_world\<lparr>heap := history_heap\<rparr>) = history_heap"
    by simp
  from prev_hash_is_32_bytes [where sdk = history_sdk and rt = plain_runtime
      and connection = "Prim (VString ''connection'')" and address = "Prim (VString ''lea1abc'')"
      and w = empty_world and v = "Ref 4" and w' = ?w'
      and candidate = "Ref 3" and ?w0.0 = "empty_world\<lparr>heap := history_heap\<rparr>" and ?v0.0 = "Ref 4"
      and w0' = "empty_world\<lparr>heap := history_heap @ [TypedArray (Uint8Array (replicate 32 7))]\<rparr>"] 1 2 3
  show ?thesis by simp
qed

text \<open>
  Claim C2. \<open>buildWithPrevHash\<close> runs the prefetch and then calls the builder once:
  with the original arguments followed by a reference to one fresh options object.
  That object has the single key \<open>prevTxHash\<close> when the prefetch returned a hash,
  and no key at all when it returned \<open>undefined\<close>. The prefetch itself calls no
  builder through \<open>buildFn\<close>.
\<close>

theorem buildWithPrevHash_calls_builder_once:
  "\<exists>prevTxHash w1.
     fetchPrevTxHashFromNetwork sdk rt connection signerAddress w = Some (Inr prevTxHash, w1) \<and>
     buildWithPrevHash sdk rt connection buildFn args signerAddress w =
       Some (fst (buildFn (heap w1 @ [PlainObject (if prevTxHash \<noteq> Prim VUndefined
                                                    then [(''prevTxHash'', prevTxHash)] else [])])
                    (args @ [Ref (length (heap w1))])),
             w1\<lparr>heap := snd (buildFn (heap w1 @ [PlainObject (if prevTxHash \<noteq> Prim VUndefined
                                                    then [(''prevTxHash'', prevTxHash)] else [])])
                    (args @ [Ref (length (heap w1))])),
                trace := trace w1 @ [BuildFnCall (args @ [Ref (length (heap w1))])]\<rparr>) \<and>
     builds (trace w1) = builds (trace w) \<and>
     (prevTxHash \<noteq> Prim VUndefined \<longrightarrow> is_hash32 (heap w1) prevTxHash)"
proof -
  obtain r w1 where f: "fetchPrevTxHashFromNetwork sdk rt connection signerAddress w = Some (r, w1)"
    using totalD [OF total_fetch] by blast
  from fetch_result [OF f] obtain p where r: "r = Inr p"
    and b: "builds (trace w1) = builds (trace w)"
    and p: "p = Prim VUndefined \<or> is_hash32 (heap w1) p" by auto
  have t: "truthy p \<longleftrightarrow> p \<noteq> Prim VUndefined"
    using p by (auto simp: truthy_def is_hash32_def split: val.splits)
  have "buildWithPrevHash sdk rt connection buildFn args signerAddress w =
       Some (fst (buildFn (heap w1 @ [PlainObject (if p \<noteq> Prim VUndefined
                                                    then [(''prevTxHash'', p)] else [])])
                    (args @ [Ref (length (heap w1))])),
             w1\<lparr>heap := snd (buildFn (heap w1 @ [PlainObject (if p \<noteq> Prim VUndefined
                                                    then [(''prevTxHash'', p)] else [])])
                    (args @ [Ref (length (heap w1))])),
                trace := trace w1 @ [BuildFnCall (args @ [Ref (length (heap w1))])]\<rparr>)"
    using f r t
    by (simp add: buildWithPrevHash_def and_then_def alloc_def external_def split: prod.splits)
  with f r b p show ?thesis by auto
qed

theorem buildWithPrevHash_calls_builder_once_witness:
  "fetchPrevTxHashFromNetwork rejecting_sdk plain_runtime (Prim (VString ''connection''))
      (Prim (VString ''lea1abc'')) empty_world
     = Some (Inr (Prim VUndefined),
         \<lparr>heap = [PlainObject [(''ok'', Prim (VBoolean False)), (''status'', Prim (VNumber (Finite 400)))]],
          stdout = [], stderr = [], exitCode = None, files = (\<lambda>_. None),
          trace = [SdkCall ''getLastTxHash'' [Prim (VString ''lea1abc'')],
                   SdkCall ''sendTransaction'' [Prim (VString ''connection''), Prim (VString ''getLastTxHash'')]]\<rparr>) \<and>
   (\<exists>r w'. buildWithPrevHash rejecting_sdk plain_runtime (Prim (VString ''connection''))
      (SystemProgram rejecting_sdk ''transfer'') [Prim (VString ''signer'')] (Prim (VString ''lea1abc''))
      empty_world = Some (r, w') \<and>
      builds (trace w') = [[Prim (VString ''signer''), Ref 1]] \<and>
      heap w' ! 1 = PlainObject []) \<and>
   (\<exists>w1. fetchPrevTxHashFromNetwork history_sdk plain_runtime (Prim (VString ''connection''))
      (Prim (VString ''lea1abc'')) empty_world = Some (Inr (Ref 4), w1) \<and>
      Ref 4 \<noteq> Prim VUndefined \<and> is_hash32 (heap w1) (Ref 4)) \<and>
   (\<exists>r w'. buildWithPrevHash history_sdk plain_runtime (Prim (VString ''connection''))
      (SystemProgram history_sdk ''transfer'') [Prim (VString ''signer'')] (Prim (VString ''lea1abc''))
      empty_world = Some (r, w') \<and>
      builds (trace w') = [[Prim (VString ''signer''), Ref 5]] \<and>
      heap w' ! 5 = PlainObject [(''prevTxHash'', Ref 4)])"
proof -
  let ?c = "Prim (VString ''connection'')" and ?a = "Prim (VString ''lea1abc'')"
  let ?w' = "\<lparr>heap = history_heap @ [TypedArray (Uint8Array (replicate 32 7))], stdout = [], stderr = [],
          exitCode = None, files = (\<lambda>_. None),
          trace = [SdkCall ''getLastTxHash'' [Prim (VString ''lea1abc'')],
                   SdkCall ''sendTransaction'' [Prim (VString ''connection''), Prim (VString ''getLastTxHash'')]]\<rparr>"
  have 1: "fetchPrevTxHashFromNetwork rejecting_sdk plain_runtime ?c ?a empty_world
     = Some (Inr (Prim VUndefined),
         \<lparr>heap = [PlainObject [(''ok'', Prim (VBoolean False)), (''status'', Prim (VNumber (Finite 400)))]],
          stdout = [], stderr = [], exitCode = None, files = (\<lambda>_. None),
          trace = [SdkCall ''getLastTxHash'' [Prim (VString ''lea1abc'')],
                   SdkCall ''sendTransaction'' [Prim (VString ''connection''), Prim (VString ''getLastTxHash'')]]\<rparr>)"
    by (simp add: fetchPrevTxHashFromNetwork_def try_catch_def fetch_body_def and_then_def
        external_def read_def ret_def rejecting_sdk_def empty_world_def
        opt_get_def get_prop_def truthy_def is_nonzero_number_def)
  have b: "is_byte_number (Prim (VNumber (Finite 7)))"
    by (simp add: is_byte_number_def is_integer_def)
  have u: "to_uint8 (Prim (VNumber (Finite 7))) = 7"
    by (simp add: to_uint8_def)
  have 2: "fetchPrevTxHashFromNetwork history_sdk plain_runtime ?c ?a empty_world = Some (Inr (Ref 4), ?w')"
    by (simp add: fetchPrevTxHashFromNetwork_def try_catch_def fetch_body_def and_then_def
        external_def read_def ret_def history_sdk_def empty_world_def history_heap_def
        opt_get_def get_prop_def truthy_def is_nonzero_number_def call_def accept_last_def
        alloc_def list_all_replicate b u)
  have l: "length history_heap = 4"
    by (simp add: history_heap_def)
  have a: "\<exists>r w'. buildWithPrevHash rejecting_sdk plain_runtime ?c
      (SystemProgram rejecting_sdk ''transfer'') [Prim (VString ''signer'')] ?a
      empty_world = Some (r, w') \<and>
      builds (trace w') = [[Prim (VString ''signer''), Ref 1]] \<and>
      heap w' ! 1 = PlainObject []"
    using buildWithPrevHash_calls_builder_once [of rejecting_sdk plain_runtime ?c ?a empty_world
      "SystemProgram rejecting_sdk ''transfer''" "[Prim (VString ''signer'')]"] 1
    by (auto simp: rejecting_sdk_def builds_def)
  have c: "(\<exists>w1. fetchPrevTxHashFromNetwork history_sdk plain_runtime ?c ?a empty_world = Some (Inr (Ref 4), w1) \<and>
      Ref 4 \<noteq> Prim VUndefined \<and> is_hash32 (heap w1) (Ref 4)) \<and>
    (\<exists>r w'. buildWithPrevHash history_sdk plain_runtime ?c
      (SystemProgram history_sdk ''transfer'') [Prim (VString ''signer'')] ?a
      empty_world = Some (r, w') \<and>
      builds (trace w') = [[Prim (VString ''signer''), Ref 5]] \<and>
      heap w' ! 5 = PlainObject [(''prevTxHash'', Ref 4)])"
    using buildWithPrevHash_calls_builder_once [of history_sdk plain_runtime ?c ?a empty_world
      "SystemProgram history_sdk ''transfer''" "[Prim (VString ''signer'')]"] 2 l
    by (auto simp: history_sdk_def builds_def nth_append)
  from 1 a c show ?thesis by blast
qed

section \<open>Properties of the reporter\<close>

lemma keeps_heap_throw [intro!]: "keeps_heap (throw e)" by (simp add: keeps_heap_def throw_def)
lemma keeps_heap_lift [intro!]: "keeps_heap (lift r)" by (simp add: keeps_heap_def lift_def)
lemma keeps_heap_write_stdout [intro!]: "keeps_heap (write_stdout s)"
  by (auto simp: keeps_heap_def write_stdout_def)
lemma keeps_heap_set_exitCode [intro!]: "keeps_heap (set_exitCode c)"
  by (auto simp: keeps_heap_def set_exitCode_def)
lemma keeps_heap_writeFile [intro!]: "keeps_heap (writeFile rt p s)"
  by (auto simp: keeps_heap_def writeFile_def split: option.splits)





lemma total_lift [intro!]: "total (lift r)" by (simp add: total_def lift_def)
lemma total_writeFile [intro!]: "total (writeFile rt p s)"
  by (simp add: total_def writeFile_def split: option.splits)
lemma total_emit: "total (emit rt outfile js)"
  unfolding emit_def by (auto split: option.splits)


lemma total_send_catch: "total (send_catch rt outfile quiet e)"
  unfolding send_catch_def
  by (intro total_and_then total_if total_write_stderr total_ret total_lift total_emit total_set_exitCode)









section \<open>Properties of the keygen proxy\<close>

lemma on_close_code_trace [simp]: "trace (on_close_code c w) = trace w"
  by (simp add: on_close_code_def)

lemma after_settled_trace [simp]: "trace (after_settled evs w) = trace w"
  by (induction evs w rule: after_settled.induct) simp_all








section \<open>Properties of the exit code\<close>




lemma keeps_exit_throw [intro!]: "keeps_exit (throw e)" by (simp add: keeps_exit_def throw_def)
lemma keeps_exit_lift [intro!]: "keeps_exit (lift r)" by (simp add: keeps_exit_def lift_def)
lemma keeps_exit_readFile [intro!]: "keeps_exit (readFile p)"
  by (auto simp: keeps_exit_def readFile_def split: option.splits)
lemma keeps_exit_write_stdout [intro!]: "keeps_exit (write_stdout s)"
  by (auto simp: keeps_exit_def write_stdout_def)
lemma keeps_exit_write_stderr [intro!]: "keeps_exit (write_stderr s)"
  by (auto simp: keeps_exit_def write_stderr_def)
lemma keeps_exit_writeFile [intro!]: "keeps_exit (writeFile rt p s)"
  by (auto simp: keeps_exit_def writeFile_def split: option.splits)
lemma keeps_exit_serialize_at [intro!]: "keeps_exit (serialize_at v)"
  by (auto simp: keeps_exit_def serialize_at_def split: option.splits sum.splits)





































end
